theory Spec2Isabelle
  imports Main "HOL-Library.Sublist"
begin

section \<open>JavaScript values and strings\<close>

text \<open>
  Strings are lists of 8-bit characters. A value that may be \<open>undefined\<close> is an
  \<open>option\<close>, with \<open>None\<close> for \<open>undefined\<close>. Numbers that hold major versions are
  unbounded integers.
\<close>

datatype js_error = TypeError

definition truthy :: "string option \<Rightarrow> bool" where
  \<comment> \<open>the truth value of a string-or-undefined: \<open>undefined\<close> and \<open>""\<close> are falsy\<close>
  "truthy v = (case v of None \<Rightarrow> False | Some s \<Rightarrow> s \<noteq> [])"

definition show_opt :: "string option \<Rightarrow> string" where
  \<comment> \<open>a string-or-undefined inside a template literal\<close>
  "show_opt v = (case v of None \<Rightarrow> ''undefined'' | Some s \<Rightarrow> s)"

definition is_digit :: "char \<Rightarrow> bool" where
  \<comment> \<open>the regular expression class \<open>\d\<close>\<close>
  "is_digit c = (48 \<le> (of_char c :: nat) \<and> (of_char c :: nat) \<le> 57)"

definition digit_val :: "char \<Rightarrow> int" where
  "digit_val c = int (of_char c) - 48"

definition parseInt :: "string \<Rightarrow> int" where
  \<comment> \<open>\<open>parseInt\<close> on a non-empty string of decimal digits. The value is exact; the
      source has a double, which agrees with it up to \<open>2^53\<close> and is rounded above.\<close>
  "parseInt ds = foldl (\<lambda>acc c. 10 * acc + digit_val c) 0 ds"

section \<open>parseMajorVersion\<close>

definition exec_digits :: "string \<Rightarrow> string option" where
  \<comment> \<open>\<open>/\d+/g.exec(s)\<close> on a fresh regular expression: the leftmost, longest run of
      digits, or \<open>null\<close>\<close>
  "exec_digits s =
     (let m = takeWhile is_digit (dropWhile (\<lambda>c. \<not> is_digit c) s)
      in if m = [] then None else Some m)"

definition firstInteger :: "string \<Rightarrow> int" where
  \<comment> \<open>the tail of parseMajorVersion, after the prefix has been dealt with\<close>
  "firstInteger version =
     (case exec_digits version of None \<Rightarrow> 0 | Some m \<Rightarrow> parseInt m)"

definition parseMajorVersion :: "string \<Rightarrow> int" where
  "parseMajorVersion version =
     (if version = [] then 0
      else firstInteger (if prefix ''1.'' version then drop 2 version else version))"

section \<open>Regular expressions and string helpers\<close>

text \<open>
  The two regular expressions of lombokSupport.ts are written as matchers in
  continuation style: each piece of the pattern consumes a part of the input and hands
  the rest to the matcher of what follows. A pattern is tried at every start position
  from the left, as \<open>exec\<close> and \<open>test\<close> do.
\<close>

definition is_line_terminator :: "char \<Rightarrow> bool" where
  \<comment> \<open>what \<open>.\<close> does not match (of the 8-bit characters)\<close>
  "is_line_terminator c = (c = CHR 0x0A \<or> c = CHR 0x0D)"

definition lit_then :: "string \<Rightarrow> (string \<Rightarrow> bool) \<Rightarrow> string \<Rightarrow> bool" where
  \<comment> \<open>a literal, then the rest of the pattern\<close>
  "lit_then p k s = (prefix p s \<and> k (drop (length p) s))"

definition cls_then :: "(char \<Rightarrow> bool) \<Rightarrow> (string \<Rightarrow> bool) \<Rightarrow> string \<Rightarrow> bool" where
  \<comment> \<open>one character of a class, then the rest of the pattern\<close>
  "cls_then P k s = (case s of [] \<Rightarrow> False | c # cs \<Rightarrow> P c \<and> k cs)"

definition opt_then :: "(char \<Rightarrow> bool) \<Rightarrow> (string \<Rightarrow> bool) \<Rightarrow> string \<Rightarrow> bool" where
  \<comment> \<open>an optional character of a class (\<open>x?\<close>), then the rest of the pattern\<close>
  "opt_then P k s = (cls_then P k s \<or> k s)"

fun dot_star_then :: "(string \<Rightarrow> bool) \<Rightarrow> string \<Rightarrow> bool" where
  \<comment> \<open>\<open>.*\<close>, then the rest of the pattern\<close>
  "dot_star_then k [] = k []"
| "dot_star_then k (c # cs) = (k (c # cs) \<or> (\<not> is_line_terminator c \<and> dot_star_then k cs))"

definition at_end :: "string \<Rightarrow> bool" where
  \<comment> \<open>\<open>$\<close> without the multiline flag\<close>
  "at_end s = (s = [])"

fun search :: "(string \<Rightarrow> bool) \<Rightarrow> string \<Rightarrow> string option" where
  \<comment> \<open>the input from the leftmost start position at which the matcher succeeds\<close>
  "search m [] = (if m [] then Some [] else None)"
| "search m (c # cs) = (if m (c # cs) then Some (c # cs) else search m cs)"

fun split_from :: "string \<Rightarrow> string \<Rightarrow> string \<Rightarrow> string list" where
  \<comment> \<open>\<open>String.prototype.split\<close> for a non-empty separator; the second argument holds
      the characters of the current piece, reversed\<close>
  "split_from sep acc [] = [rev acc]"
| "split_from sep acc (c # cs) =
     (if prefix sep (c # cs) then rev acc # split_from sep [] (drop (length sep - 1) cs)
      else split_from sep (c # acc) cs)"

definition js_split :: "string \<Rightarrow> string \<Rightarrow> string list" where
  "js_split sep s = split_from sep [] s"

fun replace_first :: "string \<Rightarrow> string \<Rightarrow> string \<Rightarrow> string" where
  \<comment> \<open>\<open>s.replace(pat, by)\<close> for a string pattern: the first occurrence only\<close>
  "replace_first pat by [] = (if pat = [] then by else [])"
| "replace_first pat by (c # cs) =
     (if prefix pat (c # cs) then by @ drop (length pat) (c # cs)
      else c # replace_first pat by cs)"

definition nth_opt :: "'a list \<Rightarrow> nat \<Rightarrow> 'a option" where
  \<comment> \<open>reading an array element: \<open>undefined\<close> out of range\<close>
  "nth_opt xs i = (if i < length xs then Some (xs ! i) else None)"

section \<open>lombokSupport.ts\<close>

definition unkownVersion :: string where
  "unkownVersion = ''999.999.999''"

definition compatibleVersion :: string where
  "compatibleVersion = ''1.18.0''"

definition lombokJarRegex_at :: "string \<Rightarrow> bool" where
  \<comment> \<open>\<open>/lombok-?\d?.*\.jar$/\<close> tried at the start of the given input\<close>
  "lombokJarRegex_at =
     lit_then ''lombok''
       (opt_then (\<lambda>c. c = CHR ''-'')
         (opt_then is_digit
           (dot_star_then (lit_then ''.jar'' at_end))))"

definition lombokJarRegex_exec :: "string \<Rightarrow> string list option" where
  \<comment> \<open>\<open>lombokJarRegex.exec(s)\<close>: \<open>null\<close>, or the array that holds the matched text.
      The pattern ends with \<open>$\<close> and has no group, so the matched text is the input
      from the start position on and the array has one element.\<close>
  "lombokJarRegex_exec s =
     (case search lombokJarRegex_at s of None \<Rightarrow> None | Some m \<Rightarrow> Some [m])"

definition lombokJarRegex_test :: "string \<Rightarrow> bool" where
  "lombokJarRegex_test s = (lombokJarRegex_exec s \<noteq> None)"

record lombok_env =
  existsSync :: "string \<Rightarrow> bool"
    \<comment> \<open>\<open>fse.existsSync\<close>: the files on disk\<close>
  lombokHome :: string
    \<comment> \<open>\<open>path.resolve(__dirname, '../server')\<close>\<close>
  globLombok :: "string list option"
    \<comment> \<open>\<open>glob.sync('lombok*.jar', {cwd: lombokHome})\<close>\<close>
  semver_gte :: "string \<Rightarrow> string \<Rightarrow> js_error + bool"
    \<comment> \<open>\<open>semver.gte\<close> of the semver package, which throws on a string that is not a
        version\<close>

record lombok_state =
  params :: "string list"
  workspaceState :: "string option"
    \<comment> \<open>the value stored under the key JAVA_LOMBOK_PATH\<close>
  activeLombokPath :: "string option"
  isExtensionLombok :: bool
  warnings :: "string list"
    \<comment> \<open>the messages given to \<open>window.showWarningMessage\<close>, oldest first\<close>
  logged :: "string list"
    \<comment> \<open>the lines given to the logger, oldest first\<close>

definition updateActiveLombokPath :: "string option \<Rightarrow> lombok_state \<Rightarrow> lombok_state" where
  "updateActiveLombokPath path s = s\<lparr>activeLombokPath := path\<rparr>"

definition cleanupLombokCache :: "lombok_state \<Rightarrow> lombok_state" where
  "cleanupLombokCache s = s\<lparr>workspaceState := None\<rparr>"

definition showWarningMessage :: "string list \<Rightarrow> lombok_state \<Rightarrow> lombok_state" where
  "showWarningMessage ms s = s\<lparr>warnings := warnings s @ ms\<rparr>"

text \<open>
  The helpers below return their value, or the exception they throw, together with the
  warnings they show.
\<close>

definition getExtensionLombokPath :: "lombok_env \<Rightarrow> string option \<times> string list" where
  "getExtensionLombokPath env =
     (case globLombok env of
        None \<Rightarrow> (None, [''Lombok missing in extension path''])
      | Some [] \<Rightarrow> (None, [''Lombok missing in extension path''])
      | Some (jar # _) \<Rightarrow>
          (let lombokJarPath = lombokHome env @ ''/'' @ jar
           in if \<not> existsSync env lombokJarPath
              then (None, [''Lombok found but not accessible''])
              else (Some lombokJarPath, [])))"

definition lombokPath2Version :: "string option \<Rightarrow> (js_error + string) \<times> string list" where
  "lombokPath2Version lombokPath =
     (case lombokPath of
        None \<Rightarrow> (Inr [], [])
      | Some p \<Rightarrow>
          if p = [] then (Inr [], [])
          else (case lombokJarRegex_exec p of
                  None \<Rightarrow> (Inl TypeError, [])
                    \<comment> \<open>\<open>matches\<close> is \<open>null\<close> and reading its length throws\<close>
                | Some matches \<Rightarrow>
                    (case matches of
                       m # _ \<Rightarrow>
                         (case js_split ''.jar'' m of
                            v # _ \<Rightarrow> (Inr v, [])
                          | [] \<Rightarrow> (Inl TypeError, []))
                              \<comment> \<open>never taken: \<open>split\<close> gives at least one piece\<close>
                     | [] \<Rightarrow>
                         (Inr ''lombok'',
                          [''Lombok '' @ p @ '' jar name mismatch'']))))"

definition lombokPath2VersionNumber :: "string option \<Rightarrow> (js_error + string) \<times> string list" where
  "lombokPath2VersionNumber lombokPath =
     (case lombokPath2Version lombokPath of
        (Inl e, ws) \<Rightarrow> (Inl e, ws)
      | (Inr version, ws) \<Rightarrow>
          (case js_split ''-'' version of
             _ # tag # _ \<Rightarrow> (Inr tag, ws)
           | _ \<Rightarrow>
               (Inr unkownVersion,
                ws @ [''Lombok '' @ show_opt lombokPath @ '' missing version tag''])))"

definition isCompatibleLombokVersion :: "lombok_env \<Rightarrow> string \<Rightarrow> js_error + bool" where
  "isCompatibleLombokVersion env currentVersion =
     semver_gte env currentVersion compatibleVersion"

definition javaagent_reg_at :: "string \<Rightarrow> bool" where
  \<comment> \<open>\<open>/-javaagent:.*[\\|/]lombok.*\.jar/\<close> tried at the start of the given input; the
      pattern is open at its end\<close>
  "javaagent_reg_at =
     lit_then ''-javaagent:''
       (dot_star_then
         (cls_then (\<lambda>c. c = CHR 0x5C \<or> c = CHR ''|'' \<or> c = CHR ''/'')
           (lit_then ''lombok''
             (dot_star_then (lit_then ''.jar'' (\<lambda>rest. True))))))"

definition reg_test :: "string \<Rightarrow> bool" where
  "reg_test s = (search javaagent_reg_at s \<noteq> None)"

definition deleteIndex_of :: "string list \<Rightarrow> nat list" where
  \<comment> \<open>the first loop of addLombokParam: the indices of the matching arguments, ascending\<close>
  "deleteIndex_of ps = filter (\<lambda>i. reg_test (ps ! i)) [0..<length ps]"

definition lastMatchedParam_of :: "string list \<Rightarrow> string option" where
  \<comment> \<open>\<open>params[deleteIndex[deleteIndex.length - 1]]\<close>, which is \<open>undefined\<close> when
      nothing matched\<close>
  "lastMatchedParam_of ps =
     (case deleteIndex_of ps of [] \<Rightarrow> None | i # is \<Rightarrow> nth_opt ps (last (i # is)))"

definition splice1 :: "nat \<Rightarrow> 'a list \<Rightarrow> 'a list" where
  \<comment> \<open>\<open>xs.splice(i, 1)\<close>\<close>
  "splice1 i xs = take i xs @ drop (Suc i) xs"

definition strip_params :: "string list \<Rightarrow> string list" where
  \<comment> \<open>the second loop: the indices are spliced out from the last to the first\<close>
  "strip_params ps = foldr splice1 (deleteIndex_of ps) ps"

definition check_configured ::
  "lombok_env \<Rightarrow> string option \<Rightarrow> lombok_state \<Rightarrow> js_error option \<times> lombok_state" where
  \<comment> \<open>lines 116 to 124 of addLombokParam; the first component is the exception thrown,
      if any\<close>
  "check_configured env lombokJarPath s =
     (case lombokJarPath of
        None \<Rightarrow> (None, s)
      | Some p \<Rightarrow>
          if p = [] \<or> \<not> existsSync env p then (None, s)
          else
            (case lombokPath2VersionNumber (Some p) of
               (Inl e, ws) \<Rightarrow> (Some e, showWarningMessage ws s)
             | (Inr v, ws) \<Rightarrow>
                 (let s1 = showWarningMessage ws s
                  in case isCompatibleLombokVersion env v of
                       Inl e \<Rightarrow> (Some e, s1)
                     | Inr ok \<Rightarrow>
                         if ok then (None, s1\<lparr>isExtensionLombok := False\<rparr>)
                         else
                           (let s2 = cleanupLombokCache s1
                            in case lombokPath2VersionNumber (Some p) of
                                 (Inl e, ws2) \<Rightarrow> (Some e, showWarningMessage ws2 s2)
                               | (Inr configured, ws2) \<Rightarrow>
                                   (let s3 = showWarningMessage ws2 s2;
                                        bundled = getExtensionLombokPath env;
                                        s4 = showWarningMessage (snd bundled) s3
                                    in case lombokPath2VersionNumber (fst bundled) of
                                         (Inl e, ws4) \<Rightarrow> (Some e, showWarningMessage ws4 s4)
                                       | (Inr fallback, ws4) \<Rightarrow>
                                           (None,
                                            showWarningMessage
                                              (ws4 @
                                               [''The configured lombok '' @ configured
                                                @ '' is not supported, falling back ''
                                                @ fallback])
                                              s4))))))"

definition append_agent :: "string option \<Rightarrow> lombok_state \<Rightarrow> lombok_state" where
  \<comment> \<open>lines 130 to 138 of addLombokParam\<close>
  "append_agent lombokJarPath s =
     (if \<not> truthy lombokJarPath
      then showWarningMessage
             [''Could not resolve valid lombok jar from vmargs or builtin.''] s
      else
        (let s1 = s\<lparr>params := params s @ [''-javaagent:'' @ show_opt lombokJarPath]\<rparr>;
             s2 = updateActiveLombokPath lombokJarPath s1
         in s2\<lparr>logged := logged s2
                  @ [''Starting server with lombok support '' @ show_opt lombokJarPath]\<rparr>))"

definition addLombokParam :: "lombok_env \<Rightarrow> lombok_state \<Rightarrow> js_error option \<times> lombok_state" where
  "addLombokParam env s =
     (let lastMatchedParam = lastMatchedParam_of (params s);
          s1 = s\<lparr>params := strip_params (params s), isExtensionLombok := True\<rparr>;
          cached = workspaceState s1;
          lombokJarPath =
            (if \<not> truthy cached \<and> truthy lastMatchedParam
             then map_option (replace_first ''-javaagent:'' []) lastMatchedParam
             else cached)
      in case check_configured env lombokJarPath s1 of
           (Some e, s2) \<Rightarrow> (Some e, s2)
         | (None, s2) \<Rightarrow>
             if isExtensionLombok s2
             then (let bundled = getExtensionLombokPath env
                   in (None, append_agent (fst bundled) (showWarningMessage (snd bundled) s2)))
             else (None, append_agent lombokJarPath s2))"

subsection \<open>A reference instance of the version comparison\<close>

text \<open>
  \<open>semver.gte\<close> belongs to a package outside the repository and is a parameter of the
  model. The instance below reads the plain form MAJOR.MINOR.PATCH and compares the
  three numbers in order; every other string is reported as not a version. It serves
  to run the model on concrete inputs.
\<close>

definition numeric_identifier :: "string \<Rightarrow> bool" where
  \<comment> \<open>\<open>0|[1-9]\d*\<close>\<close>
  "numeric_identifier ds =
     (ds = ''0'' \<or> (ds \<noteq> [] \<and> list_all is_digit ds \<and> take 1 ds \<noteq> ''0''))"

definition parse_plain :: "string \<Rightarrow> (int \<times> int \<times> int) option" where
  "parse_plain v =
     (case js_split ''.'' v of
        [a, b, c] \<Rightarrow>
          if numeric_identifier a \<and> numeric_identifier b \<and> numeric_identifier c
          then Some (parseInt a, parseInt b, parseInt c) else None
      | _ \<Rightarrow> None)"

definition semver_gte_plain :: "string \<Rightarrow> string \<Rightarrow> js_error + bool" where
  "semver_gte_plain a b =
     (case (parse_plain a, parse_plain b) of
        (Some (a1, a2, a3), Some (b1, b2, b3)) \<Rightarrow>
          Inr (b1 < a1 \<or> (a1 = b1 \<and> (b2 < a2 \<or> (a2 = b2 \<and> b3 \<le> a3))))
      | _ \<Rightarrow> Inl TypeError)"

subsection \<open>The bundled jar and a concrete run\<close>

definition glob_lombok_jar :: "string \<Rightarrow> bool" where
  \<comment> \<open>a file name on one line that the glob pattern \<open>lombok*.jar\<close> matches\<close>
  "glob_lombok_jar name =
     (prefix ''lombok'' name \<and> suffix ''.jar'' (drop 6 name)
      \<and> list_all (\<lambda>c. \<not> is_line_terminator c) name)"

definition lombok_env_example :: lombok_env where
  "lombok_env_example =
     \<lparr>existsSync = (\<lambda>p. p \<in> set [''/opt/a/lombok-1.18.30.jar'',
                                   ''/opt/b/lombok-1.17.0.jar'',
                                   ''/ext/server/lombok-1.18.34.jar'']),
      lombokHome = ''/ext/server'',
      globLombok = Some [''lombok-1.18.34.jar''],
      semver_gte = semver_gte_plain\<rparr>"

definition lombok_state_example :: lombok_state where
  "lombok_state_example =
     \<lparr>params = [''-Xmx1G'', ''-javaagent:/opt/b/lombok-1.17.0.jar'', ''-Dfoo'',
                ''-javaagent:/opt/a/lombok-1.18.30.jar''],
      workspaceState = None, activeLombokPath = None, isExtensionLombok = False,
      warnings = [], logged = []\<rparr>"

section \<open>The JDK resolver\<close>

text \<open>
  The runtimes come from the package jdk-utils: of a runtime the resolver reads the home
  directory, the major version (absent when the version could not be probed) and the
  sources that \<open>getSources\<close> reports. sortJdksBySource stores a rank on the runtime
  objects it is given.
\<close>

record IJavaRuntime =
  homedir :: string
  version_major :: "int option"
    \<comment> \<open>\<open>version?.major\<close>\<close>
  sources :: "string list"
    \<comment> \<open>\<open>getSources(runtime)\<close>\<close>

record RankedJdk = IJavaRuntime +
  rank :: "nat option"

definition as_ranked :: "IJavaRuntime \<Rightarrow> RankedJdk" where
  \<comment> \<open>a runtime as findRuntimes returns it, seen as a ranked one: it has no rank yet\<close>
  "as_ranked r =
     \<lparr>homedir = homedir r, version_major = version_major r, sources = sources r,
      rank = None\<rparr>"

fun insert_by :: "('a \<Rightarrow> 'a \<Rightarrow> int) \<Rightarrow> 'a \<Rightarrow> 'a list \<Rightarrow> 'a list" where
  "insert_by cmp x [] = [x]"
| "insert_by cmp x (y # ys) =
     (if cmp x y \<le> 0 then x # y # ys else y # insert_by cmp x ys)"

definition js_sort :: "('a \<Rightarrow> 'a \<Rightarrow> int) \<Rightarrow> 'a list \<Rightarrow> 'a list" where
  \<comment> \<open>\<open>Array.prototype.sort\<close> with a comparison function: a stable sort, here by
      insertion from the right\<close>
  "js_sort cmp xs = foldr (insert_by cmp) xs []"

definition jdk_sources :: "string list" where
  "jdk_sources = [''JDK_HOME'', ''JAVA_HOME'', ''PATH'']"

definition rank_pass :: "nat \<times> string \<Rightarrow> RankedJdk list \<Rightarrow> RankedJdk list" where
  \<comment> \<open>the inner loop of sortJdksBySource for one source and its index\<close>
  "rank_pass entry jdks =
     map (\<lambda>jdk. if rank jdk = None \<and> snd entry \<in> set (sources jdk)
                then jdk\<lparr>rank := Some (fst entry)\<rparr> else jdk) jdks"

definition assign_ranks :: "RankedJdk list \<Rightarrow> RankedJdk list" where
  \<comment> \<open>the two loops over the sources, then the rank of the runtimes left without one\<close>
  "assign_ranks jdks =
     map (\<lambda>jdk. if rank jdk = None then jdk\<lparr>rank := Some (length jdk_sources)\<rparr> else jdk)
       (foldl (\<lambda>js entry. rank_pass entry js) jdks (enumerate 0 jdk_sources))"

definition rank_number :: "RankedJdk \<Rightarrow> int" where
  \<comment> \<open>the rank as the comparison reads it; every runtime has one after assign_ranks\<close>
  "rank_number jdk = (case rank jdk of None \<Rightarrow> 0 | Some n \<Rightarrow> int n)"

definition sortJdksBySource :: "RankedJdk list \<Rightarrow> RankedJdk list" where
  "sortJdksBySource jdks =
     js_sort (\<lambda>a b. rank_number a - rank_number b) (assign_ranks jdks)"

definition major_or_0 :: "'a IJavaRuntime_scheme \<Rightarrow> int" where
  \<comment> \<open>\<open>version?.major ?? 0\<close>\<close>
  "major_or_0 r = (case version_major r of None \<Rightarrow> 0 | Some m \<Rightarrow> m)"

definition sortJdksByVersion :: "IJavaRuntime list \<Rightarrow> IJavaRuntime list" where
  "sortJdksByVersion jdks = js_sort (\<lambda>a b. major_or_0 b - major_or_0 a) jdks"

text \<open>
  Modelled from the spec: the constants \<open>Commands.OPEN_BROWSER\<close> and
  \<open>Commands.OPEN_JSON_SETTINGS\<close> of the module ./commands, which is not among the
  sources. They name the two remediation actions of a failure: open a download page, or
  open the settings.
\<close>

datatype command = OPEN_BROWSER | OPEN_JSON_SETTINGS

record RequirementsData =
  tooling_jre :: "string option"
  tooling_jre_version :: int
  java_home :: "string option"
  java_version :: "int option"

record ErrorData =
  message :: string
  label :: "string option"
  command :: "command option"
  commandParam :: "string option"

datatype promise = Pending | Resolved RequirementsData | Rejected ErrorData

datatype runtime_setting =
  NotAnObject
| RuntimeSetting (setting_path: "string option") (setting_default: bool)

text \<open>
  What resolveRequirements reads from its collaborators is collected in an environment:
  the results of \<open>checkAndDownloadJRE\<close>, \<open>checkJavaPreferences\<close> and the
  configuration, the file system, and the package jdk-utils. The calls are awaited one
  after the other and are taken to return.
\<close>

record requirements_env =
  checkAndDownloadJRE :: "string option"
    \<comment> \<open>what \<open>checkAndDownloadJRE(context)\<close> resolves to\<close>
  getRuntime :: "string \<Rightarrow> IJavaRuntime option"
    \<comment> \<open>\<open>getRuntime\<close> of jdk-utils, with the version: the runtime at a path, if any\<close>
  javac_enabled :: bool
    \<comment> \<open>whether the setting \<open>jdt.ls.javac.enabled\<close> is \<open>'on'\<close>\<close>
  preference :: string
    \<comment> \<open>\<open>javaPreferences.preference\<close>\<close>
  preferenceJavaHome :: "string option"
    \<comment> \<open>\<open>javaPreferences.javaHome\<close>\<close>
  expandHomeDir :: "string \<Rightarrow> string"
  pathExists :: "string \<Rightarrow> bool"
  path_resolve :: "string list \<Rightarrow> string"
  JAVAC_FILENAME :: string
  failsMinRequiredFirstTime :: bool
    \<comment> \<open>the workspace flag \<open>java.home.failsMinRequiredFirstTime\<close> at the start\<close>
  findRuntimes :: "IJavaRuntime list"
    \<comment> \<open>what \<open>findRuntimes\<close> of jdk-utils discovers, in its order\<close>
  configuration_runtimes :: "runtime_setting list option"
    \<comment> \<open>the setting \<open>java.configuration.runtimes\<close>; \<open>None\<close> when it is not an array\<close>
  platform_darwin :: bool

record requirements_state =
  toolingJre :: "string option"
  toolingJreVersion :: int
  javaHome :: "string option"
  javaVersion :: "int option"
  settled :: promise
    \<comment> \<open>the promise that resolveRequirements returns\<close>
  neverShow :: bool
  information :: "string list"
    \<comment> \<open>the messages given to \<open>window.showInformationMessage\<close>\<close>
  info_log :: "string list"

definition reject :: "ErrorData \<Rightarrow> requirements_state \<Rightarrow> requirements_state" where
  \<comment> \<open>a promise settles once: a later \<open>reject\<close> or \<open>resolve\<close> changes nothing\<close>
  "reject e s = (if settled s = Pending then s\<lparr>settled := Rejected e\<rparr> else s)"

definition resolve :: "RequirementsData \<Rightarrow> requirements_state \<Rightarrow> requirements_state" where
  "resolve d s = (if settled s = Pending then s\<lparr>settled := Resolved d\<rparr> else s)"

definition sq :: string where
  \<comment> \<open>the single quote inside a message\<close>
  "sq = [CHR 0x27]"

fun decimal :: "nat \<Rightarrow> string \<Rightarrow> string" where
  \<comment> \<open>the decimal digits of a number, put in front of the given text\<close>
  "decimal n rest =
     (if 10 \<le> n then decimal (n div 10) (char_of (n mod 10 + 48) # rest)
      else char_of (n + 48) # rest)"

declare decimal.simps [simp del]

definition show_version :: "int \<Rightarrow> string" where
  \<comment> \<open>a required version (17 or 23) inside a template literal\<close>
  "show_version n = decimal (nat n) []"

definition requiredJdkVersion :: "requirements_env \<Rightarrow> int" where
  "requiredJdkVersion env = (if javac_enabled env then 23 else 17)"

definition getMajorVersion :: "requirements_env \<Rightarrow> string option \<Rightarrow> int" where
  "getMajorVersion env home =
     (if \<not> truthy home then 0
      else case getRuntime env (show_opt home) of
             None \<Rightarrow> 0
           | Some runtime \<Rightarrow> major_or_0 runtime)"

definition getJdkUrl :: "requirements_env \<Rightarrow> string" where
  "getJdkUrl env =
     (if platform_darwin env then ''https://adoptopenjdk.net/''
      else ''https://developers.redhat.com/products/openjdk/download/?sc_cid=701f2000000RWTnAAO'')"

definition openJDKDownload ::
  "requirements_env \<Rightarrow> string \<Rightarrow> requirements_state \<Rightarrow> requirements_state" where
  "openJDKDownload env cause =
     reject \<lparr>message = cause, label = Some ''Get the Java Development Kit'',
             command = Some OPEN_BROWSER, commandParam = Some (getJdkUrl env)\<rparr>"

definition invalidJavaHome :: "string \<Rightarrow> requirements_state \<Rightarrow> requirements_state" where
  "invalidJavaHome cause =
     (if search (prefix ''java.home'') cause \<noteq> None
      then reject \<lparr>message = cause, label = Some ''Open settings'',
                   command = Some OPEN_JSON_SETTINGS, commandParam = None\<rparr>
      else reject \<lparr>message = cause, label = None, command = None, commandParam = None\<rparr>)"

definition runtimes_wiki :: string where
  "runtimes_wiki =
     ''['' @ sq @ ''java.configuration.runtimes'' @ sq
     @ ''](https://github.com/redhat-developer/vscode-java/wiki/JDK-Requirements#java.configuration.runtimes)''"

fun scan_runtimes ::
  "(string \<Rightarrow> IJavaRuntime option) \<Rightarrow> string option \<Rightarrow> runtime_setting list \<Rightarrow> string option" where
  \<comment> \<open>the loop of findDefaultRuntimeFromSettings; the second argument is \<open>candidate\<close>\<close>
  "scan_runtimes gr candidate [] = candidate"
| "scan_runtimes gr candidate (NotAnObject # rest) = scan_runtimes gr candidate rest"
| "scan_runtimes gr candidate (RuntimeSetting path dflt # rest) =
     (if \<not> truthy path then scan_runtimes gr candidate rest
      else
        (let candidate' = (case gr (show_opt path) of
                             None \<Rightarrow> candidate
                           | Some jr \<Rightarrow> Some (homedir jr))
         in if dflt then candidate' else scan_runtimes gr candidate' rest))"

definition findDefaultRuntimeFromSettings :: "requirements_env \<Rightarrow> string option" where
  "findDefaultRuntimeFromSettings env =
     (case configuration_runtimes env of
        None \<Rightarrow> None
      | Some [] \<Rightarrow> None
      | Some (r # rs) \<Rightarrow> scan_runtimes (getRuntime env) None (r # rs))"

subsection \<open>The messages of resolveRequirements\<close>

definition setting_source :: "string \<Rightarrow> string" where
  "setting_source preferenceName = preferenceName @ '' variable defined in coc-settings.json''"

definition missing_folder_message :: "string \<Rightarrow> string \<Rightarrow> string" where
  "missing_folder_message source home =
     ''The '' @ source @ '' points to a missing or inaccessible folder ('' @ home @ '')''"

definition remove_bin_message :: "string \<Rightarrow> string \<Rightarrow> string" where
  "remove_bin_message source home =
     sq @ ''bin'' @ sq @ '' should be removed from the '' @ source @ '' ('' @ home @ '')''"

definition not_a_jdk_message :: "string \<Rightarrow> string \<Rightarrow> string" where
  "not_a_jdk_message source home =
     ''The '' @ source @ '' ('' @ home @ '') does not point to a JDK.''"

definition fails_minimum_message :: "int \<Rightarrow> string" where
  "fails_minimum_message required =
     ''The Java runtime set by '' @ sq @ ''java.jdt.ls.java.home'' @ sq
     @ '' does not meet the minimum required version of '' @ sq
     @ show_version required @ sq @ '' and will not be used.''"

definition use_setting_message :: "string \<Rightarrow> string" where
  "use_setting_message preferenceName =
     ''Use the JDK from '' @ sq @ preferenceName @ sq
     @ '' setting as the initial default project JDK.''"

definition use_source_message :: "string list \<Rightarrow> string" where
  \<comment> \<open>the sources are an array inside a template literal: joined with commas\<close>
  "use_source_message srcs =
     ''Use the JDK from '' @ sq
     @ concat (case srcs of [] \<Rightarrow> [] | x # xs \<Rightarrow> x # map (\<lambda>y. '','' @ y) xs)
     @ sq @ '' as the initial default project JDK.''"

definition use_runtimes_message :: string where
  "use_runtimes_message =
     ''Use the JDK from '' @ sq @ ''java.configuration.runtimes'' @ sq
     @ '' as the initial default project JDK.''"

definition no_project_jdk_message :: string where
  "no_project_jdk_message =
     ''Please download and install a JDK to compile your project. ''
     @ ''You can configure your projects with different JDKs by the setting ''
     @ runtimes_wiki"

definition no_tooling_jdk_message :: "int \<Rightarrow> string" where
  "no_tooling_jdk_message required =
     ''Java '' @ show_version required
     @ '' or more recent is required to run the Java extension. ''
     @ ''Please download and install a recent JDK. ''
     @ ''You can still compile your projects with older JDKs by configuring ''
     @ runtimes_wiki"

subsection \<open>resolveRequirements\<close>

definition initial_state :: "requirements_env \<Rightarrow> requirements_state" where
  \<comment> \<open>the variables when the executor of the promise starts\<close>
  "initial_state env =
     \<lparr>toolingJre = checkAndDownloadJRE env,
      toolingJreVersion = getMajorVersion env (checkAndDownloadJRE env),
      javaHome = preferenceJavaHome env,
      javaVersion = Some 0,
      settled = Pending,
      neverShow = failsMinRequiredFirstTime env,
      information = [],
      info_log = []\<rparr>"

definition check_java_home :: "requirements_env \<Rightarrow> requirements_state \<Rightarrow> requirements_state" where
  \<comment> \<open>lines 41 to 68 of resolveRequirements: the configured home\<close>
  "check_java_home env s =
     (if \<not> truthy (javaHome s) then s
      else
        (let source = setting_source (preference env);
             home = expandHomeDir env (show_opt (javaHome s));
             s1 = s\<lparr>javaHome := Some home\<rparr>;
             s2 =
               (if \<not> pathExists env home
                then invalidJavaHome (missing_folder_message source home) s1
                else if \<not> pathExists env (path_resolve env [home, ''bin'', JAVAC_FILENAME env])
                then invalidJavaHome
                       (if pathExists env (path_resolve env [home, JAVAC_FILENAME env])
                        then remove_bin_message source home
                        else not_a_jdk_message source home) s1
                else s1);
             found = getMajorVersion env (Some home);
             s3 = s2\<lparr>javaVersion := Some found\<rparr>
         in if preference env = ''java.jdt.ls.java.home'' \<or> \<not> truthy (toolingJre s3)
            then
              (if requiredJdkVersion env \<le> found
               then s3\<lparr>toolingJre := Some home, toolingJreVersion := found\<rparr>
               else if \<not> neverShow s3
               then s3\<lparr>neverShow := True,
                       information := information s3
                         @ [fails_minimum_message (requiredJdkVersion env)]\<rparr>
               else s3)
            else s3))"

definition pick_tooling ::
  "requirements_env \<Rightarrow> IJavaRuntime list \<Rightarrow> requirements_state
   \<Rightarrow> js_error + requirements_state" where
  \<comment> \<open>lines 74 to 82: the tooling runtime from the discovered ones. The filter reads
      \<open>r.version.major\<close> and throws on a runtime without a version.\<close>
  "pick_tooling env javaRuntimes s =
     (let byVersion = sortJdksByVersion javaRuntimes
      in if list_ex (\<lambda>r. version_major r = None) byVersion then Inl TypeError
         else
           (let validJdks = filter (\<lambda>r. requiredJdkVersion env \<le> major_or_0 r) byVersion
            in if validJdks = [] then Inr s
               else
                 (case sortJdksBySource (map as_ranked validJdks) of
                    [] \<Rightarrow> Inl TypeError
                  | first # _ \<Rightarrow>
                      Inr (s\<lparr>javaHome := Some (homedir first),
                             javaVersion := Some (major_or_0 first),
                             toolingJre := Some (homedir first),
                             toolingJreVersion := major_or_0 first\<rparr>))))"

definition pick_project ::
  "requirements_env \<Rightarrow> IJavaRuntime list \<Rightarrow> requirements_state \<Rightarrow> requirements_state" where
  \<comment> \<open>lines 91 to 103: the default project JDK\<close>
  "pick_project env javaRuntimes s =
     (if truthy (javaHome s)
      then s\<lparr>info_log := info_log s @ [use_setting_message (preference env)]\<rparr>
      else if javaRuntimes \<noteq> []
      then
        (case sortJdksBySource (map as_ranked javaRuntimes) of
           [] \<Rightarrow> s
         | first # _ \<Rightarrow>
             s\<lparr>javaHome := Some (homedir first),
               javaVersion := version_major first,
               info_log := info_log s @ [use_source_message (sources first)]\<rparr>)
      else
        (let found = findDefaultRuntimeFromSettings env;
             s1 = s\<lparr>javaHome := found\<rparr>
         in if truthy found
            then s1\<lparr>javaVersion := Some (getMajorVersion env found),
                    info_log := info_log s1 @ [use_runtimes_message]\<rparr>
            else openJDKDownload env no_project_jdk_message s1))"

definition before_scan :: "requirements_env \<Rightarrow> requirements_state" where
  \<comment> \<open>the variables at line 71, after the configured home has been looked at\<close>
  "before_scan env = check_java_home env (initial_state env)"

definition finish :: "requirements_env \<Rightarrow> requirements_state \<Rightarrow> requirements_state" where
  \<comment> \<open>lines 106 to 116: the last check, then \<open>resolve\<close>; there is no return after the
      call that rejects\<close>
  "finish env s =
     (let s1 =
        (if \<not> truthy (toolingJre s) \<or> toolingJreVersion s < requiredJdkVersion env
         then openJDKDownload env (no_tooling_jdk_message (requiredJdkVersion env)) s
         else s)
      in resolve \<lparr>tooling_jre = toolingJre s1, tooling_jre_version = toolingJreVersion s1,
                  java_home = javaHome s1, java_version = javaVersion s1\<rparr> s1)"

definition resolveRequirements ::
  "requirements_env \<Rightarrow> js_error option \<times> requirements_state" where
  \<comment> \<open>the exception that ends the executor, if any, and the variables at its end. An
      exception inside the executor leaves the promise as it is.\<close>
  "resolveRequirements env =
     (let s = before_scan env;
          javaRuntimes = findRuntimes env
      in case (if \<not> truthy (toolingJre s) then pick_tooling env javaRuntimes s
               else Inr (pick_project env javaRuntimes s)) of
           Inl e \<Rightarrow> (Some e, s)
         | Inr s1 \<Rightarrow> (None, finish env s1))"

definition promise_of :: "requirements_env \<Rightarrow> promise" where
  \<comment> \<open>how the promise that resolveRequirements returns ends\<close>
  "promise_of env = settled (snd (resolveRequirements env))"

definition source_rank :: "'a IJavaRuntime_scheme \<Rightarrow> nat" where
  \<comment> \<open>the origin rank as the specification words it: the index of the first of
      JDK_HOME, JAVA_HOME, PATH among the sources of the runtime, and 3 for any other\<close>
  "source_rank r =
     (if ''JDK_HOME'' \<in> set (sources r) then 0
      else if ''JAVA_HOME'' \<in> set (sources r) then 1
      else if ''PATH'' \<in> set (sources r) then 2
      else 3)"

subsection \<open>Notions used to state the properties of the resolver\<close>

definition with_rank :: "IJavaRuntime \<Rightarrow> RankedJdk" where
  \<comment> \<open>a discovered runtime with the rank that sortJdksBySource stores on it\<close>
  "with_rank r = (as_ranked r)\<lparr>rank := Some (source_rank r)\<rparr>"

definition java_home_invalid :: "requirements_env \<Rightarrow> bool" where
  \<comment> \<open>the configured home is set and is not a folder with \<open>bin/javac\<close>\<close>
  "java_home_invalid env =
     (truthy (preferenceJavaHome env)
      \<and> (\<not> pathExists env (expandHomeDir env (show_opt (preferenceJavaHome env)))
         \<or> \<not> pathExists env
               (path_resolve env [expandHomeDir env (show_opt (preferenceJavaHome env)),
                                  ''bin'', JAVAC_FILENAME env])))"

definition download_failure :: "requirements_env \<Rightarrow> ErrorData \<Rightarrow> bool" where
  \<comment> \<open>a failure as openJDKDownload builds it: it carries the download page\<close>
  "download_failure env e =
     (label e = Some ''Get the Java Development Kit'' \<and> command e = Some OPEN_BROWSER
      \<and> commandParam e = Some (getJdkUrl env))"

definition claimed_outcome :: "requirements_env \<Rightarrow> bool" where
  \<comment> \<open>the outcome as the specification words it: resolved with a tooling version at
      least the required one, or rejected with the download remediation\<close>
  "claimed_outcome env =
     (case promise_of env of
        Pending \<Rightarrow> False
      | Resolved d \<Rightarrow> requiredJdkVersion env \<le> tooling_jre_version d
      | Rejected e \<Rightarrow> download_failure env e)"

definition usable :: "runtime_setting \<Rightarrow> bool" where
  \<comment> \<open>an entry that the loop does not skip: an object with a path\<close>
  "usable e = (case e of NotAnObject \<Rightarrow> False | RuntimeSetting p d \<Rightarrow> truthy p)"

definition marked_default :: "runtime_setting \<Rightarrow> bool" where
  "marked_default e = (case e of NotAnObject \<Rightarrow> False | RuntimeSetting p d \<Rightarrow> d)"

definition considered :: "runtime_setting list \<Rightarrow> runtime_setting list" where
  \<comment> \<open>the entries with a path, up to and including the first of them marked default\<close>
  "considered rs =
     (let us = filter usable rs
      in takeWhile (\<lambda>e. \<not> marked_default e) us
         @ take 1 (dropWhile (\<lambda>e. \<not> marked_default e) us))"

definition home_of :: "(string \<Rightarrow> IJavaRuntime option) \<Rightarrow> runtime_setting \<Rightarrow> string option" where
  \<comment> \<open>the home of the runtime found at the path of an entry, if there is one\<close>
  "home_of gr e =
     (case e of
        NotAnObject \<Rightarrow> None
      | RuntimeSetting p d \<Rightarrow> map_option homedir (gr (show_opt p)))"

definition last_opt :: "'a list \<Rightarrow> 'a option" where
  "last_opt xs = (if xs = [] then None else Some (last xs))"

subsection \<open>Concrete environments of the resolver\<close>

definition jdk :: "string \<Rightarrow> int \<Rightarrow> string list \<Rightarrow> IJavaRuntime" where
  "jdk home major srcs = \<lparr>homedir = home, version_major = Some major, sources = srcs\<rparr>"

definition resolver_env_example :: requirements_env where
  \<comment> \<open>no embedded runtime, no configured home, a JDK 21 on the PATH and a JDK 17 in
      JDK_HOME\<close>
  "resolver_env_example =
     \<lparr>checkAndDownloadJRE = None,
      getRuntime = (\<lambda>p. if p = ''/ext/jre'' then Some (jdk ''/ext/jre'' 21 [])
                        else if p = ''/jdks/a'' then Some (jdk ''/jdks/a'' 11 [])
                        else if p = ''/jdks/b'' then Some (jdk ''/jdks/b'' 8 [])
                        else None),
      javac_enabled = False,
      preference = ''java.jdt.ls.java.home'',
      preferenceJavaHome = None,
      expandHomeDir = (\<lambda>p. p),
      pathExists = (\<lambda>p. False),
      path_resolve = (\<lambda>parts. concat (map (\<lambda>part. ''/'' @ part) parts)),
      JAVAC_FILENAME = ''javac'',
      failsMinRequiredFirstTime = False,
      findRuntimes = [jdk ''/usr/lib/jvm/java-21'' 21 [''PATH''],
                      jdk ''/opt/jdk-17'' 17 [''JDK_HOME'']],
      configuration_runtimes = None,
      platform_darwin = False\<rparr>"

definition settings_env_example :: requirements_env where
  \<comment> \<open>an embedded runtime for the tooling, nothing discovered, and two named runtimes of
      which none is marked default\<close>
  "settings_env_example =
     resolver_env_example
       \<lparr>checkAndDownloadJRE := Some ''/ext/jre'',
        findRuntimes := [],
        configuration_runtimes :=
          Some [RuntimeSetting (Some ''/jdks/a'') False,
                RuntimeSetting (Some ''/jdks/b'') False]\<rparr>"

definition three_jdks_env_example :: requirements_env where
  \<comment> \<open>three discovered JDKs of one version, found on the PATH, in JAVA_HOME and in
      JDK_HOME, in that order\<close>
  "three_jdks_env_example =
     resolver_env_example
       \<lparr>findRuntimes := [jdk ''/p'' 21 [''PATH''], jdk ''/j'' 21 [''JAVA_HOME''],
                         jdk ''/k'' 21 [''JDK_HOME'']]\<rparr>"

definition old_jdks_env_example :: requirements_env where
  \<comment> \<open>three discovered JDKs of version 11, below the required version\<close>
  "old_jdks_env_example =
     resolver_env_example
       \<lparr>findRuntimes := [jdk ''/p'' 11 [''PATH''], jdk ''/j'' 11 [''JAVA_HOME''],
                         jdk ''/k'' 11 [''JDK_HOME'']]\<rparr>"

definition embedded_env_example :: requirements_env where
  \<comment> \<open>an embedded runtime of version 21 and the three discovered JDKs of version 21\<close>
  "embedded_env_example = three_jdks_env_example\<lparr>checkAndDownloadJRE := Some ''/ext/jre''\<rparr>"

section \<open>Properties of parseMajorVersion\<close>

lemma is_digit_simps:
  "is_digit (Char b0 b1 b2 b3 b4 b5 b6 b7) =
     (48 \<le> (of_char (Char b0 b1 b2 b3 b4 b5 b6 b7) :: nat)
      \<and> (of_char (Char b0 b1 b2 b3 b4 b5 b6 b7) :: nat) \<le> 57)"
  by (simp add: is_digit_def)

text \<open>
  C9: parseMajorVersion gives 8 for "1.8.0_292", 17 for "17.0.2", 0 for the empty string
  and 0 for "bogus"; a string that starts with the legacy prefix "1." is read as the
  first integer of what follows that prefix.
\<close>

theorem parseMajorVersion_examples:
  "parseMajorVersion ''1.8.0_292'' = 8
   \<and> parseMajorVersion ''17.0.2'' = 17
   \<and> parseMajorVersion [] = 0
   \<and> parseMajorVersion ''bogus'' = 0
   \<and> (\<forall>rest. parseMajorVersion (''1.'' @ rest) = firstInteger rest)"
  by (simp add: parseMajorVersion_def firstInteger_def exec_digits_def parseInt_def
      digit_val_def is_digit_simps)

section \<open>Properties of addLombokParam\<close>

lemma splice1_keep_tail:
  "i < length xs \<Longrightarrow> splice1 i (xs @ ys) = splice1 i xs @ ys"
  by (simp add: splice1_def)

lemma splice1_last: "splice1 (length xs) (xs @ [x]) = xs"
  by (simp add: splice1_def)

lemma length_splice1: "i < length xs \<Longrightarrow> length (splice1 i xs) = length xs - 1"
  by (simp add: splice1_def)

lemma foldr_splice1_append:
  "sorted_wrt (<) is \<Longrightarrow> \<forall>i \<in> set is. i < length xs
   \<Longrightarrow> foldr splice1 is (xs @ ys) = foldr splice1 is xs @ ys"
proof (induction "is" arbitrary: xs rule: rev_induct)
  case Nil
  then show ?case by simp
next
  case (snoc i "is")
  from snoc.prems have i: "i < length xs" by simp
  from snoc.prems have asc: "sorted_wrt (<) is" and below: "\<forall>j \<in> set is. j < i"
    by (auto simp: sorted_wrt_append)
  have "\<forall>j \<in> set is. j < length (splice1 i xs)"
    using below i by (auto simp: length_splice1)
  with asc have "foldr splice1 is (splice1 i xs @ ys) = foldr splice1 is (splice1 i xs) @ ys"
    by (rule snoc.IH)
  then show ?case
    using i by (simp add: splice1_keep_tail)
qed

lemma deleteIndex_of_snoc:
  "deleteIndex_of (ps @ [p]) = deleteIndex_of ps @ (if reg_test p then [length ps] else [])"
proof -
  have "filter (\<lambda>i. reg_test ((ps @ [p]) ! i)) [0..<length ps]
        = filter (\<lambda>i. reg_test (ps ! i)) [0..<length ps]"
    by (rule filter_cong) (simp_all add: nth_append)
  then show ?thesis
    by (simp add: deleteIndex_of_def)
qed

lemma deleteIndex_of_ascending: "sorted_wrt (<) (deleteIndex_of ps)"
  by (simp add: deleteIndex_of_def sorted_wrt_filter)

lemma deleteIndex_of_bound: "i \<in> set (deleteIndex_of ps) \<Longrightarrow> i < length ps"
  by (simp add: deleteIndex_of_def)

lemma strip_params_filter: "strip_params ps = filter (\<lambda>p. \<not> reg_test p) ps"
proof (induction ps rule: rev_induct)
  case Nil
  show ?case by (simp add: strip_params_def deleteIndex_of_def)
next
  case (snoc p ps)
  show ?case
  proof (cases "reg_test p")
    case True
    then show ?thesis
      using snoc.IH by (simp add: strip_params_def deleteIndex_of_snoc splice1_last)
  next
    case False
    have "foldr splice1 (deleteIndex_of ps) (ps @ [p]) = foldr splice1 (deleteIndex_of ps) ps @ [p]"
      by (rule foldr_splice1_append) (simp_all add: deleteIndex_of_ascending deleteIndex_of_bound)
    with False show ?thesis
      using snoc.IH by (simp add: strip_params_def deleteIndex_of_snoc)
  qed
qed

lemma lastMatchedParam_of_alt:
  "lastMatchedParam_of ps =
     (if deleteIndex_of ps = [] then None else nth_opt ps (last (deleteIndex_of ps)))"
  by (simp add: lastMatchedParam_of_def split: list.splits)

lemma lastMatchedParam_of_snoc:
  "lastMatchedParam_of (ps @ [p]) = (if reg_test p then Some p else lastMatchedParam_of ps)"
proof (cases "reg_test p")
  case True
  then show ?thesis
    by (simp add: lastMatchedParam_of_alt deleteIndex_of_snoc nth_opt_def)
next
  case False
  show ?thesis
  proof (cases "deleteIndex_of ps = []")
    case True
    with False show ?thesis
      by (simp add: lastMatchedParam_of_alt deleteIndex_of_snoc)
  next
    case nonempty: False
    then have "last (deleteIndex_of ps) \<in> set (deleteIndex_of ps)"
      by (rule last_in_set)
    then have "last (deleteIndex_of ps) < length ps"
      by (rule deleteIndex_of_bound)
    with False nonempty show ?thesis
      by (simp add: lastMatchedParam_of_alt deleteIndex_of_snoc nth_opt_def nth_append)
  qed
qed

lemma lastMatchedParam_of_filter:
  "lastMatchedParam_of ps =
     (if filter reg_test ps = [] then None else Some (last (filter reg_test ps)))"
proof (induction ps rule: rev_induct)
  case Nil
  show ?case by (simp add: lastMatchedParam_of_def deleteIndex_of_def)
next
  case (snoc p ps)
  then show ?case by (simp add: lastMatchedParam_of_snoc)
qed

lemma check_configured_params: "params (snd (check_configured env p s)) = params s"
  by (simp add: check_configured_def showWarningMessage_def cleanupLombokCache_def Let_def
      split: option.splits prod.splits sum.splits)

lemma append_agent_params:
  "params (append_agent x s) =
     params s @ (if truthy x then [''-javaagent:'' @ show_opt x] else [])"
  by (simp add: append_agent_def showWarningMessage_def updateActiveLombokPath_def Let_def)

lemma addLombokParam_params:
  "\<exists>extra. params (snd (addLombokParam env s)) = filter (\<lambda>p. \<not> reg_test p) (params s) @ extra
      \<and> (extra = [] \<or> (\<exists>path. extra = [''-javaagent:'' @ path]))"
proof -
  define s1 where "s1 = s\<lparr>params := strip_params (params s), isExtensionLombok := True\<rparr>"
  define L where "L = (if \<not> truthy (workspaceState s1) \<and> truthy (lastMatchedParam_of (params s))
             then map_option (replace_first ''-javaagent:'' []) (lastMatchedParam_of (params s))
             else workspaceState s1)"
  define c where "c = check_configured env L s1"
  have kept: "params (snd c) = filter (\<lambda>p. \<not> reg_test p) (params s)"
    by (simp add: c_def check_configured_params s1_def strip_params_filter)
  have unfold: "addLombokParam env s =
      (case c of
         (Some e, s2) \<Rightarrow> (Some e, s2)
       | (None, s2) \<Rightarrow>
           if isExtensionLombok s2
           then (let bundled = getExtensionLombokPath env
                 in (None, append_agent (fst bundled) (showWarningMessage (snd bundled) s2)))
           else (None, append_agent L s2))"
    unfolding addLombokParam_def c_def L_def s1_def Let_def by (rule refl)
  show ?thesis
  proof (cases c)
    case (Pair r s2)
    with kept have s2: "params s2 = filter (\<lambda>p. \<not> reg_test p) (params s)" by simp
    show ?thesis
    proof (cases r)
      case (Some e)
      with Pair s2 show ?thesis by (simp add: unfold)
    next
      case None
      with Pair s2 show ?thesis
        by (simp add: unfold append_agent_params showWarningMessage_def Let_def)
    qed
  qed
qed

lemma search_append: "m ys \<Longrightarrow> search m (xs @ ys) \<noteq> None"
  by (induction xs) (cases ys; simp)+

lemma dot_star_then_append:
  "k ys \<Longrightarrow> list_all (\<lambda>c. \<not> is_line_terminator c) xs \<Longrightarrow> dot_star_then k (xs @ ys)"
  by (induction xs) (cases ys; simp)+

lemma glob_lombok_jar_matches:
  assumes "glob_lombok_jar name"
  shows "lombokJarRegex_at name"
proof -
  from assms obtain mid where mid: "drop 6 name = mid @ ''.jar''"
    by (auto simp: glob_lombok_jar_def suffix_def)
  from assms have "list_all (\<lambda>c. \<not> is_line_terminator c) (drop 6 name)"
    by (auto simp: glob_lombok_jar_def list_all_iff dest: in_set_dropD)
  then have "list_all (\<lambda>c. \<not> is_line_terminator c) mid"
    by (simp add: mid)
  moreover have "lit_then ''.jar'' at_end ''.jar''"
    by (simp add: lit_then_def at_end_def)
  ultimately have "dot_star_then (lit_then ''.jar'' at_end) (drop 6 name)"
    unfolding mid by (intro dot_star_then_append)
  with assms show ?thesis
    by (simp add: lombokJarRegex_at_def lit_then_def opt_then_def glob_lombok_jar_def
        eval_nat_numeral)
qed

lemma split_from_nonempty: "split_from sep acc s \<noteq> []"
  by (induction sep acc s rule: split_from.induct) simp_all

lemma lombokPath2VersionNumber_matching:
  assumes "lombokJarRegex_exec p \<noteq> None"
  shows "\<exists>w. fst (lombokPath2VersionNumber (Some p)) = Inr w"
proof -
  from assms obtain m where m: "lombokJarRegex_exec p = Some [m]"
    by (auto simp: lombokJarRegex_exec_def split: option.splits)
  obtain v vs where v: "js_split ''.jar'' m = v # vs"
    using split_from_nonempty [of "''.jar''" "[]" m] by (cases "js_split ''.jar'' m") (auto simp: js_split_def)
  have "lombokPath2Version (Some p) = (Inr (if p = [] then [] else v), [])"
    by (simp add: lombokPath2Version_def m v)
  then show ?thesis
    by (simp add: lombokPath2VersionNumber_def split: list.splits)
qed

lemma bundled_version_parses:
  assumes "list_all glob_lombok_jar (case globLombok env of None \<Rightarrow> [] | Some js \<Rightarrow> js)"
  shows "\<exists>w. fst (lombokPath2VersionNumber (fst (getExtensionLombokPath env))) = Inr w"
proof (cases "fst (getExtensionLombokPath env)")
  case None
  then show ?thesis
    by (simp add: lombokPath2VersionNumber_def lombokPath2Version_def js_split_def)
next
  case (Some b)
  then obtain jar js where glob: "globLombok env = Some (jar # js)"
    and b: "b = lombokHome env @ ''/'' @ jar"
    by (auto simp: getExtensionLombokPath_def Let_def split: option.splits list.splits if_splits)
  from assms glob have "glob_lombok_jar jar" by simp
  then have "lombokJarRegex_at jar" by (rule glob_lombok_jar_matches)
  then have "search lombokJarRegex_at ((lombokHome env @ ''/'') @ jar) \<noteq> None"
    by (rule search_append)
  then have "lombokJarRegex_exec b \<noteq> None"
    by (simp add: lombokJarRegex_exec_def b split: option.splits)
  then show ?thesis
    unfolding Some by (rule lombokPath2VersionNumber_matching)
qed

lemma addLombokParam_cached:
  assumes "workspaceState s = Some p" and "p \<noteq> []"
  shows "addLombokParam env s =
     (case check_configured env (Some p)
             (s\<lparr>params := filter (\<lambda>a. \<not> reg_test a) (params s), isExtensionLombok := True\<rparr>) of
        (Some e, s2) \<Rightarrow> (Some e, s2)
      | (None, s2) \<Rightarrow>
          if isExtensionLombok s2
          then (None, append_agent (fst (getExtensionLombokPath env))
                        (showWarningMessage (snd (getExtensionLombokPath env)) s2))
          else (None, append_agent (Some p) s2))"
proof -
  obtain r s2 where c: "check_configured env (Some p)
      (s\<lparr>params := filter (\<lambda>a. \<not> reg_test a) (params s), isExtensionLombok := True\<rparr>) = (r, s2)"
    by (rule prod.exhaust)
  show ?thesis
    using assms c
    by (cases r) (simp_all add: addLombokParam_def Let_def truthy_def strip_params_filter)
qed

lemma addLombokParam_last_match_only:
  assumes "filter reg_test (params s) \<noteq> []"
  shows "addLombokParam env s
    = addLombokParam env
        (s\<lparr>params := filter (\<lambda>a. \<not> reg_test a) (params s)
                        @ [last (filter reg_test (params s))]\<rparr>)"
proof -
  let ?m = "last (filter reg_test (params s))"
  let ?kept = "filter (\<lambda>a. \<not> reg_test a) (params s)"
  have "?m \<in> set (filter reg_test (params s))"
    using assms by (rule last_in_set)
  then have m: "reg_test ?m" by simp
  have stripped: "strip_params (?kept @ [?m]) = strip_params (params s)"
    using m by (simp add: strip_params_filter)
  have last_match: "lastMatchedParam_of (?kept @ [?m]) = lastMatchedParam_of (params s)"
    using m assms by (simp add: lastMatchedParam_of_filter)
  show ?thesis
    unfolding addLombokParam_def by (simp add: stripped last_match)
qed

lemma reg_test_shape:
  assumes "list_all (\<lambda>c. \<not> is_line_terminator c) dir"
    and "list_all (\<lambda>c. \<not> is_line_terminator c) mid"
    and "sep = CHR 0x5C \<or> sep = CHR ''|'' \<or> sep = CHR ''/''"
  shows "reg_test (''-javaagent:'' @ dir @ sep # ''lombok'' @ mid @ ''.jar'' @ rest)"
proof -
  have "lit_then ''.jar'' (\<lambda>rest. True) (''.jar'' @ rest)"
    by (simp add: lit_then_def)
  then have "dot_star_then (lit_then ''.jar'' (\<lambda>rest. True)) (mid @ ''.jar'' @ rest)"
    using assms(2) by (rule dot_star_then_append)
  then have "lit_then ''lombok'' (dot_star_then (lit_then ''.jar'' (\<lambda>rest. True)))
      (''lombok'' @ mid @ ''.jar'' @ rest)"
    by (simp add: lit_then_def)
  then have "cls_then (\<lambda>c. c = CHR 0x5C \<or> c = CHR ''|'' \<or> c = CHR ''/'')
      (lit_then ''lombok'' (dot_star_then (lit_then ''.jar'' (\<lambda>rest. True))))
      (sep # ''lombok'' @ mid @ ''.jar'' @ rest)"
    using assms(3) by (simp add: cls_then_def)
  then have "dot_star_then (cls_then (\<lambda>c. c = CHR 0x5C \<or> c = CHR ''|'' \<or> c = CHR ''/'')
      (lit_then ''lombok'' (dot_star_then (lit_then ''.jar'' (\<lambda>rest. True)))))
      (dir @ sep # ''lombok'' @ mid @ ''.jar'' @ rest)"
    using assms(1) by (rule dot_star_then_append)
  then have "javaagent_reg_at (''-javaagent:'' @ dir @ sep # ''lombok'' @ mid @ ''.jar'' @ rest)"
    by (simp add: javaagent_reg_at_def lit_then_def)
  then have "search javaagent_reg_at
      ([] @ ''-javaagent:'' @ dir @ sep # ''lombok'' @ mid @ ''.jar'' @ rest) \<noteq> None"
    by (rule search_append)
  then show ?thesis by (simp add: reg_test_def)
qed

lemma addLombokParam_fallback_used:
  assumes "\<not> truthy (workspaceState s)"
    and "filter reg_test (params s) \<noteq> []"
    and "last (filter reg_test (params s)) = ''-javaagent:'' @ q"
    and "q \<noteq> []" and "existsSync env q"
    and "fst (lombokPath2VersionNumber (Some q)) = Inr v"
    and "isCompatibleLombokVersion env v = Inr True"
  shows "fst (addLombokParam env s) = None
    \<and> isExtensionLombok (snd (addLombokParam env s)) = False
    \<and> params (snd (addLombokParam env s))
        = filter (\<lambda>a. \<not> reg_test a) (params s) @ [''-javaagent:'' @ q]
    \<and> activeLombokPath (snd (addLombokParam env s)) = Some q"
proof -
  obtain ws where ws: "lombokPath2VersionNumber (Some q) = (Inr v, ws)"
    using assms(6) by (cases "lombokPath2VersionNumber (Some q)") simp
  have last_match: "lastMatchedParam_of (params s) = Some (''-javaagent:'' @ q)"
    using assms(2,3) by (simp add: lastMatchedParam_of_filter)
  let ?s1 = "s\<lparr>params := filter (\<lambda>a. \<not> reg_test a) (params s), isExtensionLombok := True\<rparr>"
  have checked: "check_configured env (Some q) ?s1
      = (None, (showWarningMessage ws ?s1)\<lparr>isExtensionLombok := False\<rparr>)"
    using assms(4,5,7) by (simp add: check_configured_def ws Let_def)
  have cache: "\<not> truthy (workspaceState ?s1)"
    using assms(1) by simp
  show ?thesis
    using cache assms(4)
    by (simp add: addLombokParam_def Let_def last_match strip_params_filter checked
        showWarningMessage_def append_agent_def truthy_def show_opt_def
        updateActiveLombokPath_def)
qed

text \<open>
  C8: addLombokParam removes every argument that the lombok agent pattern matches, among
  them every argument of the form -javaagent:<dir>/lombok<x>.jar, and appends at most one
  agent argument, so the list it leaves never holds two arguments that the pattern
  matches; this holds also when the function ends with an exception. Of the removed
  arguments only the last counts: the result is the same as on the other arguments
  followed by that last match alone. With no cache entry, the path of the last match
  (what follows -javaagent:) is the fallback candidate: when it is on disk and its
  version is compatible, it is the path of the appended argument and the active path.
\<close>

theorem addLombokParam_one_agent:
  "lastMatchedParam_of (params s) =
     (if filter reg_test (params s) = [] then None
      else Some (last (filter reg_test (params s))))
   \<and> (\<exists>extra. params (snd (addLombokParam env s))
                 = filter (\<lambda>p. \<not> reg_test p) (params s) @ extra
          \<and> (extra = [] \<or> (\<exists>path. extra = [''-javaagent:'' @ path])))
   \<and> length (filter reg_test (params (snd (addLombokParam env s)))) \<le> 1
   \<and> (filter reg_test (params s) \<noteq> [] \<longrightarrow>
        addLombokParam env s
        = addLombokParam env
            (s\<lparr>params := filter (\<lambda>p. \<not> reg_test p) (params s)
                            @ [last (filter reg_test (params s))]\<rparr>))
   \<and> (\<not> truthy (workspaceState s) \<and> filter reg_test (params s) \<noteq> []
        \<and> last (filter reg_test (params s)) = ''-javaagent:'' @ q
        \<and> q \<noteq> [] \<and> existsSync env q
        \<and> fst (lombokPath2VersionNumber (Some q)) = Inr v
        \<and> isCompatibleLombokVersion env v = Inr True \<longrightarrow>
        fst (addLombokParam env s) = None
        \<and> isExtensionLombok (snd (addLombokParam env s)) = False
        \<and> params (snd (addLombokParam env s))
            = filter (\<lambda>p. \<not> reg_test p) (params s) @ [''-javaagent:'' @ q]
        \<and> activeLombokPath (snd (addLombokParam env s)) = Some q)
   \<and> (list_all (\<lambda>c. \<not> is_line_terminator c) dir
        \<and> list_all (\<lambda>c. \<not> is_line_terminator c) mid
        \<and> (sep = CHR 0x5C \<or> sep = CHR ''|'' \<or> sep = CHR ''/'') \<longrightarrow>
        reg_test (''-javaagent:'' @ dir @ sep # ''lombok'' @ mid @ ''.jar'' @ rest))"
proof -
  obtain extra where out: "params (snd (addLombokParam env s))
      = filter (\<lambda>p. \<not> reg_test p) (params s) @ extra"
    and extra: "extra = [] \<or> (\<exists>path. extra = [''-javaagent:'' @ path])"
    using addLombokParam_params by blast
  have "filter reg_test (filter (\<lambda>p. \<not> reg_test p) (params s)) = []"
    by (simp add: filter_empty_conv)
  then have count: "length (filter reg_test (params (snd (addLombokParam env s)))) \<le> 1"
    using extra by (auto simp: out)
  have shape: "\<exists>extra. params (snd (addLombokParam env s))
                 = filter (\<lambda>p. \<not> reg_test p) (params s) @ extra
          \<and> (extra = [] \<or> (\<exists>path. extra = [''-javaagent:'' @ path]))"
    using out extra by blast
  show ?thesis
    using lastMatchedParam_of_filter [of "params s"] shape count
      addLombokParam_last_match_only [of s env]
      addLombokParam_fallback_used [of s q env v]
      reg_test_shape [of dir mid sep rest]
    by blast
qed

theorem addLombokParam_one_agent_witness:
  "\<not> truthy (workspaceState lombok_state_example)
   \<and> filter reg_test (params lombok_state_example)
       = [''-javaagent:/opt/b/lombok-1.17.0.jar'', ''-javaagent:/opt/a/lombok-1.18.30.jar'']
   \<and> existsSync lombok_env_example ''/opt/a/lombok-1.18.30.jar''
   \<and> isCompatibleLombokVersion lombok_env_example ''1.18.30'' = Inr True
   \<and> reg_test ''-javaagent:/opt/a/lombok-1.18.30.jar''
   \<and> fst (addLombokParam lombok_env_example lombok_state_example) = None
   \<and> params (snd (addLombokParam lombok_env_example lombok_state_example))
       = [''-Xmx1G'', ''-Dfoo'', ''-javaagent:/opt/a/lombok-1.18.30.jar'']
   \<and> activeLombokPath (snd (addLombokParam lombok_env_example lombok_state_example))
       = Some ''/opt/a/lombok-1.18.30.jar''
   \<and> addLombokParam lombok_env_example lombok_state_example
       = addLombokParam lombok_env_example
           (lombok_state_example
              \<lparr>params := [''-Xmx1G'', ''-Dfoo'', ''-javaagent:/opt/a/lombok-1.18.30.jar'']\<rparr>)"
proof -
  let ?q = "''/opt/a/lombok-1.18.30.jar''"
  let ?s = lombok_state_example
  let ?e = lombok_env_example
  note run = addLombokParam_one_agent
    [of ?s ?e ?q "''1.18.30''" "''/opt/a''" "''-1.18.30''" "CHR ''/''" "[]"]
  have unset: "\<not> truthy (workspaceState ?s)" by code_simp
  have matches: "filter reg_test (params ?s)
      = [''-javaagent:/opt/b/lombok-1.17.0.jar'', ''-javaagent:/opt/a/lombok-1.18.30.jar'']"
    by code_simp
  have kept: "filter (\<lambda>p. \<not> reg_test p) (params ?s) = [''-Xmx1G'', ''-Dfoo'']"
    by code_simp
  have on_disk: "existsSync ?e ?q" by (simp add: lombok_env_example_def)
  have parsed: "fst (lombokPath2VersionNumber (Some ?q)) = Inr ''1.18.30''" by code_simp
  have ok: "isCompatibleLombokVersion ?e ''1.18.30'' = Inr True" by code_simp
  have one_line: "list_all (\<lambda>c. \<not> is_line_terminator c) ''/opt/a''"
    "list_all (\<lambda>c. \<not> is_line_terminator c) ''-1.18.30''"
    by code_simp+
  have matched: "reg_test ''-javaagent:/opt/a/lombok-1.18.30.jar''"
    using run [THEN conjunct2, THEN conjunct2, THEN conjunct2, THEN conjunct2, THEN conjunct2]
      one_line
    by simp
  have same: "addLombokParam ?e ?s
      = addLombokParam ?e
          (?s\<lparr>params := [''-Xmx1G'', ''-Dfoo'', ''-javaagent:/opt/a/lombok-1.18.30.jar'']\<rparr>)"
    using run [THEN conjunct2, THEN conjunct2, THEN conjunct2, THEN conjunct1]
    by (simp only: matches kept) simp
  have used: "fst (addLombokParam ?e ?s) = None
    \<and> params (snd (addLombokParam ?e ?s))
        = [''-Xmx1G'', ''-Dfoo'', ''-javaagent:/opt/a/lombok-1.18.30.jar'']
    \<and> activeLombokPath (snd (addLombokParam ?e ?s)) = Some ?q"
    using run [THEN conjunct2, THEN conjunct2, THEN conjunct2, THEN conjunct2, THEN conjunct1]
      unset on_disk parsed ok
    by (simp only: matches kept) simp
  from unset matches on_disk ok matched used same show ?thesis by blast
qed

text \<open>
  C7: if the cached path is on disk and the version read from its name is at least the
  compatible version, addLombokParam does not use the bundled jar, appends exactly the
  argument -javaagent:<cached path> to the stripped arguments, and records that path as
  the active one.
\<close>

theorem cached_compatible_used:
  assumes "workspaceState s = Some p" and "p \<noteq> []" and "existsSync env p"
    and "fst (lombokPath2VersionNumber (Some p)) = Inr v"
    and "isCompatibleLombokVersion env v = Inr True"
  shows "fst (addLombokParam env s) = None
    \<and> isExtensionLombok (snd (addLombokParam env s)) = False
    \<and> params (snd (addLombokParam env s))
        = filter (\<lambda>a. \<not> reg_test a) (params s) @ [''-javaagent:'' @ p]
    \<and> activeLombokPath (snd (addLombokParam env s)) = Some p"
proof -
  obtain ws where ws: "lombokPath2VersionNumber (Some p) = (Inr v, ws)"
    using assms(4) by (cases "lombokPath2VersionNumber (Some p)") simp
  show ?thesis
    using assms(2,3,5)
    by (simp add: addLombokParam_cached [OF assms(1,2)] check_configured_def ws Let_def
        showWarningMessage_def append_agent_def truthy_def show_opt_def
        updateActiveLombokPath_def)
qed

theorem cached_compatible_used_witness:
  "fst (addLombokParam lombok_env_example
          (lombok_state_example\<lparr>workspaceState := Some ''/opt/a/lombok-1.18.30.jar''\<rparr>)) = None
   \<and> isExtensionLombok (snd (addLombokParam lombok_env_example
          (lombok_state_example\<lparr>workspaceState := Some ''/opt/a/lombok-1.18.30.jar''\<rparr>))) = False
   \<and> params (snd (addLombokParam lombok_env_example
          (lombok_state_example\<lparr>workspaceState := Some ''/opt/a/lombok-1.18.30.jar''\<rparr>)))
        = [''-Xmx1G'', ''-Dfoo'', ''-javaagent:/opt/a/lombok-1.18.30.jar'']
   \<and> activeLombokPath (snd (addLombokParam lombok_env_example
          (lombok_state_example\<lparr>workspaceState := Some ''/opt/a/lombok-1.18.30.jar''\<rparr>)))
        = Some ''/opt/a/lombok-1.18.30.jar''"
proof -
  let ?p = "''/opt/a/lombok-1.18.30.jar''"
  let ?s = "lombok_state_example\<lparr>workspaceState := Some ?p\<rparr>"
  have cache: "workspaceState ?s = Some ?p" by simp
  have nonempty: "?p \<noteq> []" by simp
  have on_disk: "existsSync lombok_env_example ?p"
    by (simp add: lombok_env_example_def)
  have parsed: "fst (lombokPath2VersionNumber (Some ?p)) = Inr ''1.18.30''"
    by code_simp
  have ok: "isCompatibleLombokVersion lombok_env_example ''1.18.30'' = Inr True"
    by code_simp
  have kept: "filter (\<lambda>a. \<not> reg_test a) (params ?s) = [''-Xmx1G'', ''-Dfoo'']"
    by code_simp
  show ?thesis
    using cached_compatible_used [OF cache nonempty on_disk parsed ok]
    by (simp only: kept) simp
qed

text \<open>
  C6: if the cached path is on disk and the version read from its name is below the
  compatible version, addLombokParam keeps to the bundled jar, clears the cache entry,
  and shows a warning that holds the rejected version and the version read from the
  bundled jar. The names the glob finds for the bundled jar are those its pattern
  matches.
\<close>

theorem cached_incompatible_falls_back:
  assumes "workspaceState s = Some p" and "p \<noteq> []" and "existsSync env p"
    and "fst (lombokPath2VersionNumber (Some p)) = Inr v"
    and "isCompatibleLombokVersion env v = Inr False"
    and "list_all glob_lombok_jar (case globLombok env of None \<Rightarrow> [] | Some js \<Rightarrow> js)"
  shows "\<exists>w. fst (lombokPath2VersionNumber (fst (getExtensionLombokPath env))) = Inr w
    \<and> fst (addLombokParam env s) = None
    \<and> isExtensionLombok (snd (addLombokParam env s)) = True
    \<and> workspaceState (snd (addLombokParam env s)) = None
    \<and> params (snd (addLombokParam env s))
        = filter (\<lambda>a. \<not> reg_test a) (params s)
          @ (if truthy (fst (getExtensionLombokPath env))
             then [''-javaagent:'' @ show_opt (fst (getExtensionLombokPath env))] else [])
    \<and> ''The configured lombok '' @ v @ '' is not supported, falling back '' @ w
        \<in> set (warnings (snd (addLombokParam env s)))"
proof -
  obtain ws where ws: "lombokPath2VersionNumber (Some p) = (Inr v, ws)"
    using assms(4) by (cases "lombokPath2VersionNumber (Some p)") simp
  obtain w where "fst (lombokPath2VersionNumber (fst (getExtensionLombokPath env))) = Inr w"
    using bundled_version_parses [OF assms(6)] by blast
  then obtain ws' where w: "lombokPath2VersionNumber (fst (getExtensionLombokPath env)) = (Inr w, ws')"
    by (cases "lombokPath2VersionNumber (fst (getExtensionLombokPath env))") simp
  have "fst (addLombokParam env s) = None
    \<and> isExtensionLombok (snd (addLombokParam env s)) = True
    \<and> workspaceState (snd (addLombokParam env s)) = None
    \<and> params (snd (addLombokParam env s))
        = filter (\<lambda>a. \<not> reg_test a) (params s)
          @ (if truthy (fst (getExtensionLombokPath env))
             then [''-javaagent:'' @ show_opt (fst (getExtensionLombokPath env))] else [])
    \<and> ''The configured lombok '' @ v @ '' is not supported, falling back '' @ w
        \<in> set (warnings (snd (addLombokParam env s)))"
    using assms(2,3,5)
    by (simp add: addLombokParam_cached [OF assms(1,2)] check_configured_def ws w Let_def
        showWarningMessage_def cleanupLombokCache_def append_agent_def
        updateActiveLombokPath_def)
  with w show ?thesis by (intro exI [of _ w]) simp
qed

theorem cached_incompatible_falls_back_witness:
  "fst (lombokPath2VersionNumber (fst (getExtensionLombokPath lombok_env_example))) = Inr ''1.18.34''
   \<and> fst (addLombokParam lombok_env_example
          (lombok_state_example\<lparr>workspaceState := Some ''/opt/b/lombok-1.17.0.jar''\<rparr>)) = None
   \<and> isExtensionLombok (snd (addLombokParam lombok_env_example
          (lombok_state_example\<lparr>workspaceState := Some ''/opt/b/lombok-1.17.0.jar''\<rparr>))) = True
   \<and> workspaceState (snd (addLombokParam lombok_env_example
          (lombok_state_example\<lparr>workspaceState := Some ''/opt/b/lombok-1.17.0.jar''\<rparr>))) = None
   \<and> params (snd (addLombokParam lombok_env_example
          (lombok_state_example\<lparr>workspaceState := Some ''/opt/b/lombok-1.17.0.jar''\<rparr>)))
        = [''-Xmx1G'', ''-Dfoo'', ''-javaagent:/ext/server/lombok-1.18.34.jar'']
   \<and> ''The configured lombok 1.17.0 is not supported, falling back 1.18.34''
        \<in> set (warnings (snd (addLombokParam lombok_env_example
          (lombok_state_example\<lparr>workspaceState := Some ''/opt/b/lombok-1.17.0.jar''\<rparr>))))"
proof -
  let ?p = "''/opt/b/lombok-1.17.0.jar''"
  let ?s = "lombok_state_example\<lparr>workspaceState := Some ?p\<rparr>"
  have cache: "workspaceState ?s = Some ?p" by simp
  have nonempty: "?p \<noteq> []" by simp
  have on_disk: "existsSync lombok_env_example ?p"
    by (simp add: lombok_env_example_def)
  have parsed: "fst (lombokPath2VersionNumber (Some ?p)) = Inr ''1.17.0''"
    by code_simp
  have low: "isCompatibleLombokVersion lombok_env_example ''1.17.0'' = Inr False"
    by code_simp
  have glob: "list_all glob_lombok_jar
      (case globLombok lombok_env_example of None \<Rightarrow> [] | Some js \<Rightarrow> js)"
    by code_simp
  have kept: "filter (\<lambda>a. \<not> reg_test a) (params ?s) = [''-Xmx1G'', ''-Dfoo'']"
    by code_simp
  have bundled: "fst (getExtensionLombokPath lombok_env_example)
      = Some ''/ext/server/lombok-1.18.34.jar''"
    by code_simp
  have fallback: "fst (lombokPath2VersionNumber (Some ''/ext/server/lombok-1.18.34.jar''))
      = Inr ''1.18.34''"
    by code_simp
  show ?thesis
    using cached_incompatible_falls_back [OF cache nonempty on_disk parsed low glob]
    by (simp only: kept bundled fallback) (simp add: truthy_def show_opt_def)
qed

text \<open>
  C10: with a non-empty cache entry the agent argument the user supplied is never
  consulted: addLombokParam gives the same result as on the arguments without it. When
  the cached file is not on disk the bundled jar is used, whatever the user argument
  pointed to.
\<close>

theorem cached_missing_skips_user_agent:
  assumes "workspaceState s = Some p" and "p \<noteq> []"
  shows "addLombokParam env s
      = addLombokParam env (s\<lparr>params := filter (\<lambda>a. \<not> reg_test a) (params s)\<rparr>)
    \<and> (\<not> existsSync env p \<longrightarrow>
         fst (addLombokParam env s) = None
         \<and> isExtensionLombok (snd (addLombokParam env s)) = True
         \<and> params (snd (addLombokParam env s))
             = filter (\<lambda>a. \<not> reg_test a) (params s)
               @ (if truthy (fst (getExtensionLombokPath env))
                  then [''-javaagent:'' @ show_opt (fst (getExtensionLombokPath env))] else []))"
proof -
  let ?t = "s\<lparr>params := filter (\<lambda>a. \<not> reg_test a) (params s)\<rparr>"
  have "workspaceState ?t = Some p" using assms(1) by simp
  then have "addLombokParam env ?t = addLombokParam env s"
    by (simp add: addLombokParam_cached [OF _ assms(2)] addLombokParam_cached [OF assms])
  moreover have "fst (addLombokParam env s) = None
         \<and> isExtensionLombok (snd (addLombokParam env s)) = True
         \<and> params (snd (addLombokParam env s))
             = filter (\<lambda>a. \<not> reg_test a) (params s)
               @ (if truthy (fst (getExtensionLombokPath env))
                  then [''-javaagent:'' @ show_opt (fst (getExtensionLombokPath env))] else [])"
    if "\<not> existsSync env p"
    using that
    by (simp add: addLombokParam_cached [OF assms] check_configured_def
        showWarningMessage_def append_agent_def updateActiveLombokPath_def Let_def)
  ultimately show ?thesis by simp
qed

theorem cached_missing_skips_user_agent_witness:
  "addLombokParam lombok_env_example
      (lombok_state_example\<lparr>workspaceState := Some ''/gone/lombok-1.18.20.jar''\<rparr>)
   = addLombokParam lombok_env_example
      (lombok_state_example\<lparr>workspaceState := Some ''/gone/lombok-1.18.20.jar'',
                            params := [''-Xmx1G'', ''-Dfoo'']\<rparr>)
   \<and> \<not> existsSync lombok_env_example ''/gone/lombok-1.18.20.jar''
   \<and> lastMatchedParam_of (params lombok_state_example)
       = Some ''-javaagent:/opt/a/lombok-1.18.30.jar''
   \<and> existsSync lombok_env_example ''/opt/a/lombok-1.18.30.jar''
   \<and> isExtensionLombok (snd (addLombokParam lombok_env_example
        (lombok_state_example\<lparr>workspaceState := Some ''/gone/lombok-1.18.20.jar''\<rparr>)))
   \<and> params (snd (addLombokParam lombok_env_example
        (lombok_state_example\<lparr>workspaceState := Some ''/gone/lombok-1.18.20.jar''\<rparr>)))
       = [''-Xmx1G'', ''-Dfoo'', ''-javaagent:/ext/server/lombok-1.18.34.jar'']"
proof -
  let ?p = "''/gone/lombok-1.18.20.jar''"
  let ?s = "lombok_state_example\<lparr>workspaceState := Some ?p\<rparr>"
  have cache: "workspaceState ?s = Some ?p" by simp
  have nonempty: "?p \<noteq> []" by simp
  have gone: "\<not> existsSync lombok_env_example ?p"
    by (simp add: lombok_env_example_def)
  have there: "existsSync lombok_env_example ''/opt/a/lombok-1.18.30.jar''"
    by (simp add: lombok_env_example_def)
  have kept: "filter (\<lambda>a. \<not> reg_test a) (params ?s) = [''-Xmx1G'', ''-Dfoo'']"
    by code_simp
  have last: "lastMatchedParam_of (params lombok_state_example)
       = Some ''-javaagent:/opt/a/lombok-1.18.30.jar''"
    by code_simp
  have bundled: "fst (getExtensionLombokPath lombok_env_example)
      = Some ''/ext/server/lombok-1.18.34.jar''"
    by code_simp
  note run = cached_missing_skips_user_agent [OF cache nonempty, of lombok_env_example]
  have same: "addLombokParam lombok_env_example ?s
      = addLombokParam lombok_env_example (?s\<lparr>params := [''-Xmx1G'', ''-Dfoo'']\<rparr>)"
    using run [THEN conjunct1] by (simp only: kept)
  have bundled_used: "isExtensionLombok (snd (addLombokParam lombok_env_example ?s))
    \<and> params (snd (addLombokParam lombok_env_example ?s))
       = [''-Xmx1G'', ''-Dfoo'', ''-javaagent:/ext/server/lombok-1.18.34.jar'']"
    using run [THEN conjunct2] gone
    by (simp only: kept bundled) (simp add: truthy_def show_opt_def)
  from same bundled_used gone there last show ?thesis by blast
qed

text \<open>
  C3: the helpers are meant to return a sentinel and never to throw. On a non-empty path
  that the jar name pattern does not match, lombokPath2Version throws a TypeError, and
  lombokPath2VersionNumber with it.
\<close>

theorem lombokPath2Version_throws:
  "lombokPath2Version (Some ''/opt/agents/jacoco.jar'') = (Inl TypeError, [])
   \<and> lombokPath2VersionNumber (Some ''/opt/agents/jacoco.jar'') = (Inl TypeError, [])"
  by code_simp

section \<open>Properties of the JDK resolver\<close>

lemma insert_by_insort_key:
  assumes "\<And>a b. (cmp a b \<le> 0) = (f a \<le> f b)"
  shows "insert_by cmp x xs = insort_key f x xs"
  by (induction xs) (simp_all add: assms)

lemma js_sort_sort_key:
  assumes "\<And>a b. (cmp a b \<le> 0) = (f a \<le> f b)"
  shows "js_sort cmp xs = sort_key f xs"
proof -
  have "insert_by cmp = insort_key f"
    by (intro ext) (rule insert_by_insort_key [OF assms])
  then show ?thesis
    by (simp add: js_sort_def sort_key_def)
qed

lemma sortJdksByVersion_sort_key:
  "sortJdksByVersion jdks = sort_key (\<lambda>r. - major_or_0 r) jdks"
  unfolding sortJdksByVersion_def by (rule js_sort_sort_key) simp

lemma assign_ranks_fresh: "assign_ranks (map as_ranked xs) = map with_rank xs"
  by (simp add: assign_ranks_def jdk_sources_def enumerate_eq_zip rank_pass_def as_ranked_def
      with_rank_def source_rank_def)

lemma insort_key_map:
  "insort_key f (g x) (map g xs) = map g (insort_key (\<lambda>y. f (g y)) x xs)"
  by (induction xs) simp_all

lemma sort_key_map: "sort_key f (map g xs) = map g (sort_key (\<lambda>y. f (g y)) xs)"
  by (induction xs) (simp_all add: insort_key_map)

lemma rank_number_with_rank: "rank_number (with_rank r) = int (source_rank r)"
  by (simp add: rank_number_def with_rank_def)

lemma sortJdksBySource_fresh:
  "sortJdksBySource (map as_ranked xs) = map with_rank (sort_key source_rank xs)"
proof -
  have "sortJdksBySource (map as_ranked xs) = sort_key rank_number (map with_rank xs)"
    unfolding sortJdksBySource_def assign_ranks_fresh by (rule js_sort_sort_key) simp
  also have "\<dots> = map with_rank (sort_key (\<lambda>r. int (source_rank r)) xs)"
    by (simp add: sort_key_map rank_number_with_rank)
  also have "sort_key (\<lambda>r. int (source_rank r)) xs = sort_key source_rank xs"
  proof (induction xs)
    case Nil
    show ?case by simp
  next
    case (Cons x xs)
    have "insort_key (\<lambda>r. int (source_rank r)) x ys = insort_key source_rank x ys" for ys
      by (induction ys) simp_all
    with Cons show ?case by simp
  qed
  finally show ?thesis .
qed

lemma hd_sort_key:
  assumes "xs \<noteq> []"
  shows "hd (sort_key f xs) \<in> set xs"
    and "\<forall>x \<in> set xs. f (hd (sort_key f xs)) \<le> f x"
    and "hd (sort_key f xs) = hd (filter (\<lambda>x. f x = f (hd (sort_key f xs))) xs)"
proof -
  have same: "set (sort_key f xs) = set xs" by simp
  with assms have "sort_key f xs \<noteq> []" by (metis set_empty)
  then obtain h t where ht: "sort_key f xs = h # t"
    by (cases "sort_key f xs") auto
  have members: "set xs = insert h (set t)"
    using same unfolding ht by simp
  then show "hd (sort_key f xs) \<in> set xs"
    unfolding ht by simp
  have "sorted (map f (sort_key f xs))" by simp
  then have "\<forall>x \<in> set t. f h \<le> f x"
    unfolding ht by simp
  then show "\<forall>x \<in> set xs. f (hd (sort_key f xs)) \<le> f x"
    unfolding ht members by simp
  have "filter (\<lambda>x. f x = f h) xs = filter (\<lambda>x. f x = f h) (sort_key f xs)"
    by (simp add: sort_key_stable)
  then show "hd (sort_key f xs) = hd (filter (\<lambda>x. f x = f (hd (sort_key f xs))) xs)"
    unfolding ht by simp
qed

lemma with_rank_fields:
  "homedir (with_rank r) = homedir r" "major_or_0 (with_rank r) = major_or_0 r"
  "version_major (with_rank r) = version_major r" "sources (with_rank r) = sources r"
  by (simp_all add: with_rank_def as_ranked_def major_or_0_def)

lemma pick_tooling_choice:
  assumes known: "list_all (\<lambda>r. version_major r \<noteq> None) js"
    and some: "filter (\<lambda>r. requiredJdkVersion env \<le> major_or_0 r) js \<noteq> []"
  shows "\<exists>c. c \<in> set js \<and> requiredJdkVersion env \<le> major_or_0 c
    \<and> pick_tooling env js s =
        Inr (s\<lparr>javaHome := Some (homedir c), javaVersion := Some (major_or_0 c),
               toolingJre := Some (homedir c), toolingJreVersion := major_or_0 c\<rparr>)
    \<and> (\<forall>r \<in> set js. requiredJdkVersion env \<le> major_or_0 r \<longrightarrow> source_rank c \<le> source_rank r)
    \<and> (\<forall>r \<in> set js. requiredJdkVersion env \<le> major_or_0 r \<and> source_rank r = source_rank c
          \<longrightarrow> major_or_0 r \<le> major_or_0 c)
    \<and> c = hd (filter (\<lambda>r. major_or_0 r = major_or_0 c)
               (filter (\<lambda>r. source_rank r = source_rank c)
                 (filter (\<lambda>r. requiredJdkVersion env \<le> major_or_0 r) js)))"
proof -
  let ?q = "\<lambda>r::IJavaRuntime. requiredJdkVersion env \<le> major_or_0 r"
  let ?neg = "\<lambda>r::IJavaRuntime. - major_or_0 r"
  define Q where "Q = filter ?q js"
  define valid where "valid = sort_key ?neg Q"
  define c where "c = hd (sort_key source_rank valid)"
  define F where "F = filter (\<lambda>r. source_rank r = source_rank c) Q"
  have Q: "Q \<noteq> []" using some by (simp add: Q_def)
  then have valid: "valid \<noteq> []"
    by (metis valid_def set_sort set_empty)
  have valid_eq: "filter ?q (sortJdksByVersion js) = valid"
    by (simp add: sortJdksByVersion_sort_key filter_sort valid_def Q_def)
  have no_throw: "\<not> list_ex (\<lambda>r. version_major r = None) (sortJdksByVersion js)"
    using known by (simp add: sortJdksByVersion_sort_key list_ex_iff list_all_iff)
  have sorted_nonempty: "sort_key source_rank valid \<noteq> []"
    using valid by (metis set_sort set_empty)
  then obtain t where hd_t: "sort_key source_rank valid = c # t"
    unfolding c_def by (cases "sort_key source_rank valid") auto
  have pick: "pick_tooling env js s =
        Inr (s\<lparr>javaHome := Some (homedir c), javaVersion := Some (major_or_0 c),
               toolingJre := Some (homedir c), toolingJreVersion := major_or_0 c\<rparr>)"
    using no_throw valid
    by (simp add: pick_tooling_def Let_def valid_eq sortJdksBySource_fresh hd_t with_rank_fields)
  have c_valid: "c \<in> set valid"
    unfolding c_def using valid by (rule hd_sort_key(1))
  then have c_Q: "c \<in> set Q" by (simp add: valid_def)
  have least: "\<forall>x \<in> set valid. source_rank c \<le> source_rank x"
    unfolding c_def using valid by (rule hd_sort_key(2))
  have "c = hd (filter (\<lambda>x. source_rank x = source_rank c) valid)"
    unfolding c_def using valid by (rule hd_sort_key(3))
  then have c_F: "c = hd (sort_key ?neg F)"
    by (simp add: valid_def filter_sort F_def)
  have F: "F \<noteq> []"
    using c_Q by (auto simp: F_def filter_empty_conv)
  have newest: "\<forall>x \<in> set F. ?neg c \<le> ?neg x"
    using hd_sort_key(2) [OF F, of ?neg] c_F by simp
  have first: "c = hd (filter (\<lambda>x. ?neg x = ?neg c) F)"
    using hd_sort_key(3) [OF F, of ?neg] c_F by simp
  have "c \<in> set js" and "?q c"
    using c_Q by (simp_all add: Q_def)
  moreover have "\<forall>r \<in> set js. ?q r \<longrightarrow> source_rank c \<le> source_rank r"
    using least by (simp add: valid_def Q_def)
  moreover have "\<forall>r \<in> set js. ?q r \<and> source_rank r = source_rank c \<longrightarrow> major_or_0 r \<le> major_or_0 c"
    using newest by (simp add: F_def Q_def)
  moreover have "c = hd (filter (\<lambda>r. major_or_0 r = major_or_0 c)
               (filter (\<lambda>r. source_rank r = source_rank c) (filter ?q js)))"
    using first by (simp add: F_def Q_def)
  ultimately show ?thesis using pick by blast
qed

lemma settled_reject:
  "settled (reject e s) = (if settled s = Pending then Rejected e else settled s)"
  by (simp add: reject_def)

lemma settled_invalidJavaHome:
  "settled s = Pending \<Longrightarrow>
   \<exists>e. settled (invalidJavaHome cause s) = Rejected e
       \<and> command e \<noteq> Some OPEN_BROWSER \<and> commandParam e = None"
  by (simp add: invalidJavaHome_def settled_reject)

lemma settled_openJDKDownload:
  "settled (openJDKDownload env cause s) =
     (if settled s = Pending
      then Rejected \<lparr>message = cause, label = Some ''Get the Java Development Kit'',
                     command = Some OPEN_BROWSER, commandParam = Some (getJdkUrl env)\<rparr>
      else settled s)"
  by (simp add: openJDKDownload_def settled_reject)

lemma settled_before_scan:
  "if java_home_invalid env
   then \<exists>e. settled (before_scan env) = Rejected e
           \<and> command e \<noteq> Some OPEN_BROWSER \<and> commandParam e = None
   else settled (before_scan env) = Pending"
proof -
  have start: "settled (initial_state env) = Pending"
    "javaHome (initial_state env) = preferenceJavaHome env"
    by (simp_all add: initial_state_def)
  let ?home = "expandHomeDir env (show_opt (preferenceJavaHome env))"
  let ?s1 = "(initial_state env)\<lparr>javaHome := Some ?home\<rparr>"
  have s1: "settled ?s1 = Pending" using start by simp
  show ?thesis
  proof (cases "java_home_invalid env")
    case True
    then show ?thesis
      using settled_invalidJavaHome [OF s1]
      by (auto simp add: before_scan_def check_java_home_def java_home_invalid_def start Let_def)
  next
    case False
    then show ?thesis
      by (auto simp add: before_scan_def check_java_home_def java_home_invalid_def start Let_def)
  qed
qed

lemma settled_pick_tooling:
  "pick_tooling env js s = Inr s' \<Longrightarrow> settled s' = settled s"
  by (auto simp add: pick_tooling_def Let_def split: if_splits list.splits)

lemma settled_pick_project:
  "settled (pick_project env js s) = settled s
   \<or> (settled s = Pending \<and> (\<exists>e. settled (pick_project env js s) = Rejected e
                                  \<and> download_failure env e))"
  by (simp add: pick_project_def Let_def settled_openJDKDownload download_failure_def
      split: list.splits)

lemma settled_finish:
  "settled (finish env s) =
     (if settled s \<noteq> Pending then settled s
      else if \<not> truthy (toolingJre s) \<or> toolingJreVersion s < requiredJdkVersion env
      then Rejected \<lparr>message = no_tooling_jdk_message (requiredJdkVersion env),
                     label = Some ''Get the Java Development Kit'',
                     command = Some OPEN_BROWSER, commandParam = Some (getJdkUrl env)\<rparr>
      else Resolved \<lparr>tooling_jre = toolingJre s, tooling_jre_version = toolingJreVersion s,
                  java_home = javaHome s, java_version = javaVersion s\<rparr>)"
  by (simp add: finish_def Let_def resolve_def openJDKDownload_def reject_def)

lemma finish_fields:
  "toolingJre (finish env s) = toolingJre s" "toolingJreVersion (finish env s) = toolingJreVersion s"
  "javaHome (finish env s) = javaHome s" "javaVersion (finish env s) = javaVersion s"
  by (simp_all add: finish_def Let_def resolve_def openJDKDownload_def reject_def)

lemma sort_key_Nil_iff: "sort_key f xs = [] \<longleftrightarrow> xs = []"
  by (metis set_sort set_empty sort_key_simps(1))

text \<open>How the executor ends, by cases.\<close>

lemma resolveRequirements_cases:
  obtains (thrown) "resolveRequirements env = (Some TypeError, before_scan env)"
      "\<not> truthy (toolingJre (before_scan env))"
      "\<not> list_all (\<lambda>r. version_major r \<noteq> None) (findRuntimes env)"
  | (tooling) s1 where "resolveRequirements env = (None, finish env s1)"
      "\<not> truthy (toolingJre (before_scan env))"
      "pick_tooling env (findRuntimes env) (before_scan env) = Inr s1"
  | (project) "resolveRequirements env
        = (None, finish env (pick_project env (findRuntimes env) (before_scan env)))"
      "truthy (toolingJre (before_scan env))"
proof (cases "truthy (toolingJre (before_scan env))")
  case True
  then show ?thesis
    by (intro project) (simp_all add: resolveRequirements_def Let_def)
next
  case False
  show ?thesis
  proof (cases "pick_tooling env (findRuntimes env) (before_scan env)")
    case (Inl e)
    then have "\<not> list_all (\<lambda>r. version_major r \<noteq> None) (findRuntimes env)"
      by (auto simp add: pick_tooling_def Let_def sortJdksByVersion_sort_key sortJdksBySource_fresh
          list_ex_iff list_all_iff sort_key_Nil_iff split: if_splits list.splits)
    moreover have "e = TypeError" by (cases e) simp
    ultimately show ?thesis
      using False Inl by (intro thrown) (simp_all add: resolveRequirements_def Let_def)
  next
    case (Inr s1)
    with False show ?thesis
      by (intro tooling [of s1]) (simp_all add: resolveRequirements_def Let_def)
  qed
qed

lemma never_resolved_before_scan: "settled (before_scan env) \<noteq> Resolved d"
  using settled_before_scan [of env] by (auto split: if_splits)

lemma finish_resolved:
  assumes "settled (finish env s) = Resolved d" and "\<forall>d'. settled s \<noteq> Resolved d'"
  shows "requiredJdkVersion env \<le> tooling_jre_version d \<and> truthy (tooling_jre d)
    \<and> tooling_jre d = toolingJre s \<and> tooling_jre_version d = toolingJreVersion s
    \<and> java_home d = javaHome s"
  using assms by (auto simp add: settled_finish split: if_splits)

lemma resolved_fields:
  assumes "promise_of env = Resolved d"
  shows "requiredJdkVersion env \<le> tooling_jre_version d \<and> truthy (tooling_jre d)
    \<and> tooling_jre d = toolingJre (snd (resolveRequirements env))
    \<and> tooling_jre_version d = toolingJreVersion (snd (resolveRequirements env))
    \<and> java_home d = javaHome (snd (resolveRequirements env))"
proof (cases env rule: resolveRequirements_cases)
  case thrown
  with assms show ?thesis
    by (simp add: promise_of_def never_resolved_before_scan)
next
  case (tooling s1)
  then have "\<forall>d'. settled s1 \<noteq> Resolved d'"
    by (simp add: settled_pick_tooling never_resolved_before_scan)
  moreover have "settled (finish env s1) = Resolved d"
    using assms tooling by (simp add: promise_of_def)
  ultimately show ?thesis
    using finish_resolved [of env s1 d] tooling by (auto simp add: finish_fields)
next
  case project
  let ?s = "pick_project env (findRuntimes env) (before_scan env)"
  have "\<forall>d'. settled ?s \<noteq> Resolved d'"
    using settled_pick_project [of env "findRuntimes env" "before_scan env"]
    by (auto simp add: never_resolved_before_scan)
  moreover have "settled (finish env ?s) = Resolved d"
    using assms project by (simp add: promise_of_def)
  ultimately show ?thesis
    using finish_resolved [of env ?s d] project by (auto simp add: finish_fields)
qed

lemma settles_when_versions_known:
  assumes "list_all (\<lambda>r. version_major r \<noteq> None) (findRuntimes env)"
  shows "promise_of env \<noteq> Pending"
proof (cases env rule: resolveRequirements_cases)
  case thrown
  with assms show ?thesis by simp
next
  case (tooling s1)
  then show ?thesis by (simp add: promise_of_def settled_finish)
next
  case project
  then show ?thesis by (simp add: promise_of_def settled_finish)
qed

lemma rejected_is_download:
  assumes "\<not> java_home_invalid env" and "promise_of env = Rejected e"
  shows "download_failure env e"
proof -
  have pending: "settled (before_scan env) = Pending"
    using settled_before_scan [of env] assms(1) by simp
  show ?thesis
  proof (cases env rule: resolveRequirements_cases)
    case thrown
    with assms(2) pending show ?thesis by (simp add: promise_of_def)
  next
    case (tooling s1)
    then have "settled s1 = Pending"
      using pending by (simp add: settled_pick_tooling)
    with assms(2) tooling show ?thesis
      by (auto simp add: promise_of_def settled_finish download_failure_def split: if_splits)
  next
    case project
    with assms(2) pending settled_pick_project [of env "findRuntimes env" "before_scan env"]
    show ?thesis
      by (auto simp add: promise_of_def settled_finish download_failure_def split: if_splits)
  qed
qed

lemma invalid_home_rejects:
  assumes "java_home_invalid env"
  shows "\<exists>e. promise_of env = Rejected e \<and> command e \<noteq> Some OPEN_BROWSER \<and> commandParam e = None"
proof -
  obtain e where e: "settled (before_scan env) = Rejected e"
    "command e \<noteq> Some OPEN_BROWSER" "commandParam e = None"
    using settled_before_scan [of env] assms by auto
  have "promise_of env = Rejected e"
  proof (cases env rule: resolveRequirements_cases)
    case thrown
    with e show ?thesis by (simp add: promise_of_def)
  next
    case (tooling s1)
    then have "settled s1 = Rejected e"
      using e by (simp add: settled_pick_tooling)
    with tooling show ?thesis by (simp add: promise_of_def settled_finish)
  next
    case project
    with e settled_pick_project [of env "findRuntimes env" "before_scan env"]
    show ?thesis by (auto simp add: promise_of_def settled_finish)
  qed
  with e show ?thesis by blast
qed

text \<open>
  C1, as amended: resolveRequirements never resolves with a tooling JRE below the
  required version (17, or 23 with javac enabled), nor without one. When every discovered
  runtime has a version, the promise settles. A rejection carries the download
  remediation, unless the configured home is set and is not a folder with bin/javac: then
  the promise is rejected with the failure of invalidJavaHome, which carries no download
  action.
\<close>

theorem resolveRequirements_outcome:
  "(\<forall>d. promise_of env = Resolved d \<longrightarrow>
        requiredJdkVersion env \<le> tooling_jre_version d \<and> truthy (tooling_jre d))
   \<and> (list_all (\<lambda>r. version_major r \<noteq> None) (findRuntimes env) \<longrightarrow> promise_of env \<noteq> Pending)
   \<and> (\<not> java_home_invalid env \<longrightarrow>
        (\<forall>e. promise_of env = Rejected e \<longrightarrow> download_failure env e))
   \<and> (java_home_invalid env \<longrightarrow>
        (\<exists>e. promise_of env = Rejected e \<and> command e \<noteq> Some OPEN_BROWSER
             \<and> commandParam e = None))"
  using resolved_fields [of env] settles_when_versions_known [of env]
    rejected_is_download [of env] invalid_home_rejects [of env]
  by blast

text \<open>
  C1 as stated fails: with a configured home that points to a missing folder the promise
  is rejected by invalidJavaHome, with the action that opens the settings, although a
  JDK that meets the required version is discovered.
\<close>

theorem resolveRequirements_outcome_counterexample:
  "promise_of (resolver_env_example\<lparr>preferenceJavaHome := Some ''/opt/missing''\<rparr>)
     = Rejected \<lparr>message = missing_folder_message (setting_source ''java.jdt.ls.java.home'')
                              ''/opt/missing'',
                 label = Some ''Open settings'', command = Some OPEN_JSON_SETTINGS,
                 commandParam = None\<rparr>
   \<and> \<not> claimed_outcome (resolver_env_example\<lparr>preferenceJavaHome := Some ''/opt/missing''\<rparr>)"
  by code_simp

theorem resolveRequirements_outcome_witness:
  "promise_of resolver_env_example
     = Resolved \<lparr>tooling_jre = Some ''/opt/jdk-17'', tooling_jre_version = 17,
                 java_home = Some ''/opt/jdk-17'', java_version = Some 17\<rparr>
   \<and> requiredJdkVersion resolver_env_example \<le> 17
   \<and> list_all (\<lambda>r. version_major r \<noteq> None) (findRuntimes resolver_env_example)
   \<and> promise_of resolver_env_example \<noteq> Pending
   \<and> \<not> java_home_invalid (resolver_env_example\<lparr>findRuntimes := []\<rparr>)
   \<and> (\<exists>e. promise_of (resolver_env_example\<lparr>findRuntimes := []\<rparr>) = Rejected e
          \<and> download_failure (resolver_env_example\<lparr>findRuntimes := []\<rparr>) e)
   \<and> java_home_invalid (resolver_env_example\<lparr>preferenceJavaHome := Some ''/opt/missing''\<rparr>)
   \<and> (\<exists>e. promise_of (resolver_env_example\<lparr>preferenceJavaHome := Some ''/opt/missing''\<rparr>)
            = Rejected e
          \<and> command e \<noteq> Some OPEN_BROWSER \<and> commandParam e = None)"
proof -
  let ?a = resolver_env_example
  let ?b = "resolver_env_example\<lparr>findRuntimes := []\<rparr>"
  let ?c = "resolver_env_example\<lparr>preferenceJavaHome := Some ''/opt/missing''\<rparr>"
  have resolved: "promise_of ?a
     = Resolved \<lparr>tooling_jre = Some ''/opt/jdk-17'', tooling_jre_version = 17,
                 java_home = Some ''/opt/jdk-17'', java_version = Some 17\<rparr>"
    by code_simp
  have known: "list_all (\<lambda>r. version_major r \<noteq> None) (findRuntimes ?a)"
    by code_simp
  have valid: "\<not> java_home_invalid ?b"
    by code_simp
  have rejected: "promise_of ?b
      = Rejected \<lparr>message = no_tooling_jdk_message 17,
                  label = Some ''Get the Java Development Kit'',
                  command = Some OPEN_BROWSER,
                  commandParam = Some (getJdkUrl resolver_env_example)\<rparr>"
    by code_simp
  have invalid: "java_home_invalid ?c"
    by code_simp
  from resolveRequirements_outcome [of ?a] resolved known
  have a: "requiredJdkVersion ?a \<le> 17" "promise_of ?a \<noteq> Pending"
    by auto
  from resolveRequirements_outcome [of ?b] valid rejected
  have b: "\<exists>e. promise_of ?b = Rejected e \<and> download_failure ?b e"
    by auto
  from resolveRequirements_outcome [of ?c] invalid
  have c: "\<exists>e. promise_of ?c = Rejected e \<and> command e \<noteq> Some OPEN_BROWSER \<and> commandParam e = None"
    by blast
  from resolved known a valid b invalid c show ?thesis by blast
qed

lemma considered_simps:
  "considered [] = []"
  "considered (NotAnObject # rest) = considered rest"
  "\<not> truthy path \<Longrightarrow> considered (RuntimeSetting path dflt # rest) = considered rest"
  "truthy path \<Longrightarrow> considered (RuntimeSetting path True # rest) = [RuntimeSetting path True]"
  "truthy path \<Longrightarrow>
     considered (RuntimeSetting path False # rest) = RuntimeSetting path False # considered rest"
  by (simp_all add: considered_def usable_def marked_default_def Let_def)

lemma last_opt_simps:
  "last_opt [] = None"
  "last_opt (x # xs) = (case last_opt xs of None \<Rightarrow> Some x | Some y \<Rightarrow> Some y)"
  by (simp_all add: last_opt_def)

lemma scan_runtimes_considered:
  "scan_runtimes gr candidate rs =
     (case last_opt (List.map_filter (home_of gr) (considered rs)) of
        None \<Rightarrow> candidate
      | Some h \<Rightarrow> Some h)"
proof (induction gr candidate rs rule: scan_runtimes.induct)
  case (1 gr candidate)
  show ?case by (simp add: considered_simps last_opt_simps List.map_filter_simps)
next
  case (2 gr candidate rest)
  then show ?case by (simp add: considered_simps)
next
  case (3 gr candidate path dflt rest)
  show ?case
  proof (cases "truthy path")
    case False
    with 3 show ?thesis by (simp add: considered_simps)
  next
    case True
    have home: "home_of gr (RuntimeSetting path dflt) = map_option homedir (gr (show_opt path))"
      by (simp add: home_of_def)
    show ?thesis
    proof (cases dflt)
      case dflt: True
      show ?thesis
        using True home dflt
        by (cases "gr (show_opt path)")
          (simp_all add: considered_simps last_opt_simps List.map_filter_simps)
    next
      case nodflt: False
      show ?thesis
        using True home nodflt "3.IH"(2) [OF _ refl]
        by (cases "gr (show_opt path)";
            cases "last_opt (List.map_filter (home_of gr) (considered rest))")
          (simp_all add: considered_simps last_opt_simps List.map_filter_simps)
    qed
  qed
qed

text \<open>
  C4, as amended: when the default project JDK falls through to the named runtimes of
  the settings, the resolver takes the entries that have a path, up to and including the
  first of them marked default, and returns the home of the last of these at which a
  runtime is found (nothing, if there is none). With no entry marked default that is the
  last entry of the list with a runtime, not the first.
\<close>

theorem default_runtime_from_settings:
  assumes "truthy (toolingJre (before_scan env))"
    and "\<not> truthy (javaHome (before_scan env))"
    and "findRuntimes env = []"
  shows "javaHome (snd (resolveRequirements env)) = findDefaultRuntimeFromSettings env
    \<and> findDefaultRuntimeFromSettings env
        = last_opt (List.map_filter (home_of (getRuntime env))
            (considered (case configuration_runtimes env of None \<Rightarrow> [] | Some rs \<Rightarrow> rs)))"
proof -
  have "resolveRequirements env
      = (None, finish env (pick_project env (findRuntimes env) (before_scan env)))"
    using assms(1) by (simp add: resolveRequirements_def Let_def)
  then have "javaHome (snd (resolveRequirements env)) = findDefaultRuntimeFromSettings env"
    using assms(2,3)
    by (simp add: finish_fields pick_project_def Let_def openJDKDownload_def reject_def)
  moreover have "findDefaultRuntimeFromSettings env
        = last_opt (List.map_filter (home_of (getRuntime env))
            (considered (case configuration_runtimes env of None \<Rightarrow> [] | Some rs \<Rightarrow> rs)))"
    by (simp add: findDefaultRuntimeFromSettings_def scan_runtimes_considered
        considered_simps last_opt_simps split: option.splits list.splits)
  ultimately show ?thesis by simp
qed

text \<open>
  C4 as stated fails: of two named runtimes, none marked default and both found, the
  resolver returns the home of the second.
\<close>

theorem default_runtime_from_settings_counterexample:
  "configuration_runtimes settings_env_example
     = Some [RuntimeSetting (Some ''/jdks/a'') False, RuntimeSetting (Some ''/jdks/b'') False]
   \<and> map_option homedir (getRuntime settings_env_example ''/jdks/a'') = Some ''/jdks/a''
   \<and> javaHome (snd (resolveRequirements settings_env_example)) = Some ''/jdks/b''
   \<and> javaHome (snd (resolveRequirements settings_env_example)) \<noteq> Some ''/jdks/a''"
  by code_simp

theorem default_runtime_from_settings_witness:
  "truthy (toolingJre (before_scan settings_env_example))
   \<and> \<not> truthy (javaHome (before_scan settings_env_example))
   \<and> findRuntimes settings_env_example = []
   \<and> javaHome (snd (resolveRequirements settings_env_example)) = Some ''/jdks/b''
   \<and> findDefaultRuntimeFromSettings settings_env_example = Some ''/jdks/b''"
proof -
  have tooling: "truthy (toolingJre (before_scan settings_env_example))"
    by code_simp
  have unset: "\<not> truthy (javaHome (before_scan settings_env_example))"
    by code_simp
  have none_found: "findRuntimes settings_env_example = []"
    by code_simp
  have last_home: "last_opt (List.map_filter (home_of (getRuntime settings_env_example))
            (considered (case configuration_runtimes settings_env_example of
                           None \<Rightarrow> [] | Some rs \<Rightarrow> rs))) = Some ''/jdks/b''"
    by code_simp
  note run = default_runtime_from_settings [OF tooling unset none_found]
  have found: "findDefaultRuntimeFromSettings settings_env_example = Some ''/jdks/b''"
    using run [THEN conjunct2] by (simp only: last_home)
  have home: "javaHome (snd (resolveRequirements settings_env_example)) = Some ''/jdks/b''"
    using run [THEN conjunct1] by (simp only: found)
  from tooling unset none_found home found show ?thesis by blast
qed

lemma rank_with_rank: "rank (with_rank r) = Some (source_rank r)"
  by (simp add: with_rank_def)

lemma sorts_stable:
  "filter (\<lambda>r. rank r = Some m \<and> major_or_0 r = w)
     (sortJdksBySource (map as_ranked (filter q (sortJdksByVersion js))))
   = map with_rank (filter (\<lambda>r. source_rank r = m \<and> major_or_0 r = w) (filter q js))"
proof -
  let ?neg = "\<lambda>r::IJavaRuntime. - major_or_0 r"
  let ?valid = "filter q (sort_key ?neg js)"
  have "filter (\<lambda>r. rank r = Some m \<and> major_or_0 r = w)
          (sortJdksBySource (map as_ranked (filter q (sortJdksByVersion js))))
        = map with_rank (filter (\<lambda>r. source_rank r = m \<and> major_or_0 r = w)
            (sort_key source_rank ?valid))"
    by (simp add: sortJdksBySource_fresh sortJdksByVersion_sort_key filter_map comp_def
        rank_with_rank with_rank_fields)
  also have "filter (\<lambda>r. source_rank r = m \<and> major_or_0 r = w) (sort_key source_rank ?valid)
        = filter (\<lambda>r. major_or_0 r = w) (filter (\<lambda>r. source_rank r = m) (sort_key source_rank ?valid))"
    by (simp add: conj_commute)
  also have "filter (\<lambda>r. source_rank r = m) (sort_key source_rank ?valid)
        = filter (\<lambda>r. source_rank r = m) ?valid"
    by (rule sort_key_stable)
  also have "filter (\<lambda>r. source_rank r = m) ?valid
        = sort_key ?neg (filter (\<lambda>r. source_rank r = m) (filter q js))"
    by (simp add: filter_sort)
  also have "filter (\<lambda>r. major_or_0 r = w) (sort_key ?neg (filter (\<lambda>r. source_rank r = m) (filter q js)))
        = filter (\<lambda>r. ?neg r = - w) (sort_key ?neg (filter (\<lambda>r. source_rank r = m) (filter q js)))"
    by (rule filter_cong) simp_all
  also have "\<dots> = filter (\<lambda>r. ?neg r = - w) (filter (\<lambda>r. source_rank r = m) (filter q js))"
    by (rule sort_key_stable)
  also have "\<dots> = filter (\<lambda>r. source_rank r = m \<and> major_or_0 r = w) (filter q js)"
    by (auto intro!: filter_cong)
  finally show ?thesis .
qed

lemma tooling_from_scan:
  assumes "\<not> truthy (toolingJre (before_scan env))"
    and "pick_tooling env (findRuntimes env) (before_scan env) = Inr s1"
  shows "toolingJre (snd (resolveRequirements env)) = toolingJre s1"
    and "toolingJreVersion (snd (resolveRequirements env)) = toolingJreVersion s1"
  using assms by (simp_all add: resolveRequirements_def Let_def finish_fields)

lemma project_from_scan:
  assumes "truthy (toolingJre (before_scan env))"
    and "\<not> truthy (javaHome (before_scan env))"
    and "findRuntimes env \<noteq> []"
  shows "javaHome (snd (resolveRequirements env))
    = Some (homedir (hd (sort_key source_rank (findRuntimes env))))"
proof -
  have "sort_key source_rank (findRuntimes env) \<noteq> []"
    using assms(3) by (simp add: sort_key_Nil_iff)
  then obtain c cs where sorted: "sort_key source_rank (findRuntimes env) = c # cs"
    by (cases "sort_key source_rank (findRuntimes env)") auto
  have "resolveRequirements env
      = (None, finish env (pick_project env (findRuntimes env) (before_scan env)))"
    using assms(1) by (simp add: resolveRequirements_def Let_def)
  then show ?thesis
    using assms(2,3)
    by (simp add: finish_fields pick_project_def sortJdksBySource_fresh sorted with_rank_fields)
qed

lemma toolingJre_invalidJavaHome: "toolingJre (invalidJavaHome cause s) = toolingJre s"
  by (simp add: invalidJavaHome_def reject_def)

lemma tooling_before_scan:
  "toolingJre (before_scan env) =
     (if truthy (preferenceJavaHome env)
         \<and> (preference env = ''java.jdt.ls.java.home'' \<or> \<not> truthy (checkAndDownloadJRE env))
         \<and> requiredJdkVersion env
             \<le> getMajorVersion env
                  (Some (expandHomeDir env (show_opt (preferenceJavaHome env))))
      then Some (expandHomeDir env (show_opt (preferenceJavaHome env)))
      else checkAndDownloadJRE env)"
  by (simp add: before_scan_def check_java_home_def initial_state_def Let_def
      toolingJre_invalidJavaHome)

lemma tooling_kept:
  assumes "truthy (toolingJre (before_scan env))"
  shows "toolingJre (snd (resolveRequirements env)) = toolingJre (before_scan env)"
    and "toolingJreVersion (snd (resolveRequirements env)) = toolingJreVersion (before_scan env)"
proof -
  have "resolveRequirements env
      = (None, finish env (pick_project env (findRuntimes env) (before_scan env)))"
    using assms by (simp add: resolveRequirements_def Let_def)
  then show "toolingJre (snd (resolveRequirements env)) = toolingJre (before_scan env)"
    and "toolingJreVersion (snd (resolveRequirements env)) = toolingJreVersion (before_scan env)"
    by (simp_all add: finish_fields pick_project_def Let_def openJDKDownload_def reject_def
        split: list.splits)
qed

lemma no_tooling_when_none_qualifies:
  assumes "\<not> truthy (toolingJre (before_scan env))"
    and "list_all (\<lambda>r. version_major r \<noteq> None) (findRuntimes env)"
    and "filter (\<lambda>r. requiredJdkVersion env \<le> major_or_0 r) (findRuntimes env) = []"
  shows "\<not> truthy (toolingJre (snd (resolveRequirements env)))"
    and "\<forall>d. promise_of env \<noteq> Resolved d"
proof -
  have "\<not> list_ex (\<lambda>r. version_major r = None) (sortJdksByVersion (findRuntimes env))"
    using assms(2) by (simp add: sortJdksByVersion_sort_key list_ex_iff list_all_iff)
  moreover have "filter (\<lambda>r. requiredJdkVersion env \<le> major_or_0 r)
      (sortJdksByVersion (findRuntimes env)) = []"
    using assms(3) by (simp add: sortJdksByVersion_sort_key filter_sort)
  ultimately have pick: "pick_tooling env (findRuntimes env) (before_scan env)
      = Inr (before_scan env)"
    by (simp add: pick_tooling_def Let_def)
  then show unset: "\<not> truthy (toolingJre (snd (resolveRequirements env)))"
    using tooling_from_scan(1) [OF assms(1) pick] assms(1) by simp
  show "\<forall>d. promise_of env \<noteq> Resolved d"
    using resolved_fields [of env] unset by auto
qed

lemma javaHome_before_scan:
  "javaHome (before_scan env) =
     (if truthy (preferenceJavaHome env)
      then Some (expandHomeDir env (show_opt (preferenceJavaHome env)))
      else preferenceJavaHome env)"
  by (simp add: before_scan_def check_java_home_def initial_state_def Let_def
      invalidJavaHome_def reject_def)

lemma scan_choice:
  assumes "\<not> truthy (toolingJre (before_scan env))"
    and "list_all (\<lambda>r. version_major r \<noteq> None) (findRuntimes env)"
    and some: "filter (\<lambda>r. requiredJdkVersion env \<le> major_or_0 r) (findRuntimes env) \<noteq> []"
  shows "\<exists>c \<in> set (findRuntimes env). requiredJdkVersion env \<le> major_or_0 c
        \<and> toolingJre (snd (resolveRequirements env)) = Some (homedir c)
        \<and> toolingJreVersion (snd (resolveRequirements env)) = major_or_0 c
        \<and> (\<forall>r \<in> set (findRuntimes env).
              requiredJdkVersion env \<le> major_or_0 r \<longrightarrow> source_rank c \<le> source_rank r)
        \<and> (\<forall>r \<in> set (findRuntimes env).
              requiredJdkVersion env \<le> major_or_0 r \<and> source_rank r = source_rank c
              \<longrightarrow> major_or_0 r \<le> major_or_0 c)
        \<and> c = hd (filter (\<lambda>r. major_or_0 r = major_or_0 c)
                   (filter (\<lambda>r. source_rank r = source_rank c)
                     (filter (\<lambda>r. requiredJdkVersion env \<le> major_or_0 r)
                        (findRuntimes env))))"
proof -
  obtain c where c: "c \<in> set (findRuntimes env)" "requiredJdkVersion env \<le> major_or_0 c"
    and pick: "pick_tooling env (findRuntimes env) (before_scan env) =
        Inr ((before_scan env)\<lparr>javaHome := Some (homedir c), javaVersion := Some (major_or_0 c),
               toolingJre := Some (homedir c), toolingJreVersion := major_or_0 c\<rparr>)"
    and order: "\<forall>r \<in> set (findRuntimes env).
        requiredJdkVersion env \<le> major_or_0 r \<longrightarrow> source_rank c \<le> source_rank r"
      "\<forall>r \<in> set (findRuntimes env).
        requiredJdkVersion env \<le> major_or_0 r \<and> source_rank r = source_rank c
        \<longrightarrow> major_or_0 r \<le> major_or_0 c"
      "c = hd (filter (\<lambda>r. major_or_0 r = major_or_0 c)
               (filter (\<lambda>r. source_rank r = source_rank c)
                 (filter (\<lambda>r. requiredJdkVersion env \<le> major_or_0 r) (findRuntimes env))))"
    using pick_tooling_choice [OF assms(2) some, of "before_scan env"] by blast
  have "toolingJre (snd (resolveRequirements env)) = Some (homedir c)"
    "toolingJreVersion (snd (resolveRequirements env)) = major_or_0 c"
    using tooling_from_scan [OF assms(1) pick] by simp_all
  with c order show ?thesis by blast
qed

text \<open>
  C2, as amended: before the discovered runtimes are scanned, the tooling runtime is the
  configured home, when a home is configured, its version meets the required one, and
  the setting is java.jdt.ls.java.home or there is no embedded runtime; otherwise it is
  the embedded runtime of checkAndDownloadJRE, if there is one. When it is set at that
  point, the discovered runtimes are not consulted for it. When it is unset and every
  discovered runtime has a version, the resolver selects, among the discovered runtimes
  that meet the required version, one of the lowest origin rank in the order JDK_HOME,
  JAVA_HOME, PATH, other; among those of that rank it is one of the highest major
  version, and among those the first in discovery order. Its major version is maximal
  among the qualifying candidates of its rank, not among all of them. When no runtime
  qualifies, no tooling runtime is set and the promise does not resolve.
\<close>

theorem tooling_by_source_then_version:
  "toolingJre (before_scan env) =
     (if truthy (preferenceJavaHome env)
         \<and> (preference env = ''java.jdt.ls.java.home'' \<or> \<not> truthy (checkAndDownloadJRE env))
         \<and> requiredJdkVersion env
             \<le> getMajorVersion env
                  (Some (expandHomeDir env (show_opt (preferenceJavaHome env))))
      then Some (expandHomeDir env (show_opt (preferenceJavaHome env)))
      else checkAndDownloadJRE env)
   \<and> (truthy (toolingJre (before_scan env)) \<longrightarrow>
        toolingJre (snd (resolveRequirements env)) = toolingJre (before_scan env))
   \<and> (\<not> truthy (toolingJre (before_scan env))
        \<and> list_all (\<lambda>r. version_major r \<noteq> None) (findRuntimes env) \<longrightarrow>
        (filter (\<lambda>r. requiredJdkVersion env \<le> major_or_0 r) (findRuntimes env) \<noteq> [] \<longrightarrow>
          (\<exists>c \<in> set (findRuntimes env). requiredJdkVersion env \<le> major_or_0 c
            \<and> toolingJre (snd (resolveRequirements env)) = Some (homedir c)
            \<and> toolingJreVersion (snd (resolveRequirements env)) = major_or_0 c
            \<and> (\<forall>r \<in> set (findRuntimes env).
                  requiredJdkVersion env \<le> major_or_0 r \<longrightarrow> source_rank c \<le> source_rank r)
            \<and> (\<forall>r \<in> set (findRuntimes env).
                  requiredJdkVersion env \<le> major_or_0 r \<and> source_rank r = source_rank c
                  \<longrightarrow> major_or_0 r \<le> major_or_0 c)
            \<and> c = hd (filter (\<lambda>r. major_or_0 r = major_or_0 c)
                       (filter (\<lambda>r. source_rank r = source_rank c)
                         (filter (\<lambda>r. requiredJdkVersion env \<le> major_or_0 r)
                            (findRuntimes env))))))
        \<and> (filter (\<lambda>r. requiredJdkVersion env \<le> major_or_0 r) (findRuntimes env) = [] \<longrightarrow>
            \<not> truthy (toolingJre (snd (resolveRequirements env)))
            \<and> (\<forall>d. promise_of env \<noteq> Resolved d)))"
  using tooling_before_scan [of env] tooling_kept(1) [of env] scan_choice [of env]
    no_tooling_when_none_qualifies [of env]
  by (intro conjI impI) blast+

text \<open>
  C2 as stated fails: with no embedded runtime, no configured home, a JDK 21 on the PATH
  and a JDK 17 in JDK_HOME, both meeting the required version, resolveRequirements
  resolves with the JDK 17, whose major version is not the highest among the qualifying
  candidates.
\<close>

theorem tooling_by_source_then_version_counterexample:
  "\<not> truthy (toolingJre (before_scan resolver_env_example))
   \<and> findRuntimes resolver_env_example
       = [jdk ''/usr/lib/jvm/java-21'' 21 [''PATH''], jdk ''/opt/jdk-17'' 17 [''JDK_HOME'']]
   \<and> requiredJdkVersion resolver_env_example
       \<le> major_or_0 (jdk ''/usr/lib/jvm/java-21'' 21 [''PATH''])
   \<and> promise_of resolver_env_example
       = Resolved \<lparr>tooling_jre = Some ''/opt/jdk-17'', tooling_jre_version = 17,
                   java_home = Some ''/opt/jdk-17'', java_version = Some 17\<rparr>
   \<and> toolingJreVersion (snd (resolveRequirements resolver_env_example))
       < major_or_0 (jdk ''/usr/lib/jvm/java-21'' 21 [''PATH''])"
  by code_simp

theorem tooling_by_source_then_version_witness:
  "\<not> truthy (toolingJre (before_scan resolver_env_example))
   \<and> list_all (\<lambda>r. version_major r \<noteq> None) (findRuntimes resolver_env_example)
   \<and> filter (\<lambda>r. requiredJdkVersion resolver_env_example \<le> major_or_0 r)
        (findRuntimes resolver_env_example)
      = [jdk ''/usr/lib/jvm/java-21'' 21 [''PATH''], jdk ''/opt/jdk-17'' 17 [''JDK_HOME'']]
   \<and> toolingJre (snd (resolveRequirements resolver_env_example)) = Some ''/opt/jdk-17''
   \<and> \<not> truthy (toolingJre (snd (resolveRequirements
          (resolver_env_example\<lparr>findRuntimes := [jdk ''/opt/jdk-11'' 11 [''JDK_HOME'']]\<rparr>))))
   \<and> toolingJre (before_scan (resolver_env_example\<lparr>checkAndDownloadJRE := Some ''/ext/jre''\<rparr>))
       = Some ''/ext/jre''
   \<and> toolingJre (snd (resolveRequirements
          (resolver_env_example\<lparr>checkAndDownloadJRE := Some ''/ext/jre''\<rparr>)))
       = Some ''/ext/jre''"
proof -
  let ?new = "jdk ''/usr/lib/jvm/java-21'' 21 [''PATH'']"
  let ?old = "jdk ''/opt/jdk-17'' 17 [''JDK_HOME'']"
  let ?e = resolver_env_example
  let ?f = "resolver_env_example\<lparr>findRuntimes := [jdk ''/opt/jdk-11'' 11 [''JDK_HOME'']]\<rparr>"
  let ?g = "resolver_env_example\<lparr>checkAndDownloadJRE := Some ''/ext/jre''\<rparr>"
  note scan_part = tooling_by_source_then_version [THEN conjunct2, THEN conjunct2]
  have scan: "\<not> truthy (toolingJre (before_scan ?e))" by code_simp
  have known: "list_all (\<lambda>r. version_major r \<noteq> None) (findRuntimes ?e)" by code_simp
  have found: "findRuntimes ?e = [?new, ?old]"
    by (simp add: resolver_env_example_def)
  have qualifying: "filter (\<lambda>r. requiredJdkVersion ?e \<le> major_or_0 r) (findRuntimes ?e)
      = [?new, ?old]"
    by code_simp
  have ranks: "source_rank ?new = 2" "source_rank ?old = 0"
    by (simp_all add: source_rank_def jdk_def)
  have old_ok: "requiredJdkVersion ?e \<le> major_or_0 ?old" by code_simp
  from scan_part [of ?e] scan known qualifying
  obtain c where c: "c \<in> set (findRuntimes ?e)"
    and home: "toolingJre (snd (resolveRequirements ?e)) = Some (homedir c)"
    and least: "\<forall>r \<in> set (findRuntimes ?e).
        requiredJdkVersion ?e \<le> major_or_0 r \<longrightarrow> source_rank c \<le> source_rank r"
    by auto
  have "source_rank c \<le> source_rank ?old"
    using least old_ok by (simp add: found)
  then have "c = ?old"
    using c ranks by (auto simp add: found)
  then have chosen: "toolingJre (snd (resolveRequirements ?e)) = Some ''/opt/jdk-17''"
    using home by (simp add: jdk_def)
  have scan': "\<not> truthy (toolingJre (before_scan ?f))" by code_simp
  have known': "list_all (\<lambda>r. version_major r \<noteq> None) (findRuntimes ?f)" by code_simp
  have none: "filter (\<lambda>r. requiredJdkVersion ?f \<le> major_or_0 r) (findRuntimes ?f) = []"
    by code_simp
  have unset: "\<not> truthy (toolingJre (snd (resolveRequirements ?f)))"
    using scan_part [of ?f] scan' known' none by blast
  have embedded: "toolingJre (before_scan ?g) = Some ''/ext/jre''"
    using tooling_by_source_then_version [of ?g, THEN conjunct1]
    by (simp add: resolver_env_example_def truthy_def)
  then have "truthy (toolingJre (before_scan ?g))"
    by (simp add: truthy_def)
  then have kept: "toolingJre (snd (resolveRequirements ?g)) = Some ''/ext/jre''"
    using tooling_by_source_then_version [of ?g, THEN conjunct2, THEN conjunct1] embedded
    by simp
  from scan known qualifying chosen unset embedded kept show ?thesis by blast
qed

text \<open>
  C5, as amended: take three discovered candidates of one version, with the sources
  [PATH], [JAVA_HOME] and [JDK_HOME], in any discovery order. When the tooling runtime
  is unset before the scan (no embedded runtime and no configured home that supplies it)
  and the version meets the required one, the resolver selects the candidate from
  JDK_HOME as the tooling runtime. When it is unset and the version is below the
  required one, no tooling runtime is selected and the promise does not resolve. When
  the tooling runtime is set before the scan, it stays what it was, and the candidate
  from JDK_HOME becomes the default project JDK when no home is configured. The two
  sorts are stable: the candidates of one rank and one version keep their discovery
  order.
\<close>

theorem jdk_home_candidate_wins:
  assumes "set (findRuntimes env) = {p, j, k}"
    and "sources p = [''PATH'']" and "sources j = [''JAVA_HOME'']"
    and "sources k = [''JDK_HOME'']"
    and "version_major p = Some v" and "version_major j = Some v"
    and "version_major k = Some v"
  shows "toolingJre (before_scan env) =
       (if truthy (preferenceJavaHome env)
           \<and> (preference env = ''java.jdt.ls.java.home'' \<or> \<not> truthy (checkAndDownloadJRE env))
           \<and> requiredJdkVersion env
               \<le> getMajorVersion env
                    (Some (expandHomeDir env (show_opt (preferenceJavaHome env))))
        then Some (expandHomeDir env (show_opt (preferenceJavaHome env)))
        else checkAndDownloadJRE env)
    \<and> javaHome (before_scan env) =
       (if truthy (preferenceJavaHome env)
        then Some (expandHomeDir env (show_opt (preferenceJavaHome env)))
        else preferenceJavaHome env)
    \<and> (\<not> truthy (toolingJre (before_scan env)) \<and> requiredJdkVersion env \<le> v \<longrightarrow>
        toolingJre (snd (resolveRequirements env)) = Some (homedir k)
        \<and> toolingJreVersion (snd (resolveRequirements env)) = v
        \<and> (\<forall>d. promise_of env = Resolved d \<longrightarrow> tooling_jre d = Some (homedir k)))
    \<and> (\<not> truthy (toolingJre (before_scan env)) \<and> v < requiredJdkVersion env \<longrightarrow>
        \<not> truthy (toolingJre (snd (resolveRequirements env)))
        \<and> (\<forall>d. promise_of env \<noteq> Resolved d))
    \<and> (truthy (toolingJre (before_scan env)) \<longrightarrow>
        toolingJre (snd (resolveRequirements env)) = toolingJre (before_scan env))
    \<and> (truthy (toolingJre (before_scan env)) \<and> \<not> truthy (javaHome (before_scan env)) \<longrightarrow>
        javaHome (snd (resolveRequirements env)) = Some (homedir k))
    \<and> (\<forall>js m w.
         filter (\<lambda>r. rank r = Some m \<and> major_or_0 r = w)
           (sortJdksBySource (map as_ranked
              (filter (\<lambda>r. requiredJdkVersion env \<le> major_or_0 r) (sortJdksByVersion js))))
         = map with_rank (filter (\<lambda>r. source_rank r = m \<and> major_or_0 r = w)
              (filter (\<lambda>r. requiredJdkVersion env \<le> major_or_0 r) js)))"
proof -
  let ?js = "findRuntimes env"
  have ranks: "source_rank p = 2" "source_rank j = 1" "source_rank k = 0"
    using assms(2-4) by (simp_all add: source_rank_def)
  have majors: "major_or_0 p = v" "major_or_0 j = v" "major_or_0 k = v"
    using assms(5-7) by (simp_all add: major_or_0_def)
  have member: "k \<in> set ?js" using assms(1) by simp
  have only: "c = k" if "c \<in> set ?js" and "source_rank c \<le> source_rank k" for c
    using that assms(1) ranks by auto
  have known: "list_all (\<lambda>r. version_major r \<noteq> None) ?js"
    using assms(1,5-7) by (simp add: list_all_iff)
  have tooling: "toolingJre (snd (resolveRequirements env)) = Some (homedir k)
        \<and> toolingJreVersion (snd (resolveRequirements env)) = v
        \<and> (\<forall>d. promise_of env = Resolved d \<longrightarrow> tooling_jre d = Some (homedir k))"
    if scan: "\<not> truthy (toolingJre (before_scan env)) \<and> requiredJdkVersion env \<le> v"
  proof -
    have k_qualifies: "requiredJdkVersion env \<le> major_or_0 k"
      using scan majors(3) by simp
    with member have some: "filter (\<lambda>r. requiredJdkVersion env \<le> major_or_0 r) ?js \<noteq> []"
      unfolding filter_empty_conv by blast
    obtain c where c: "c \<in> set ?js"
      and pick: "pick_tooling env ?js (before_scan env) =
          Inr ((before_scan env)\<lparr>javaHome := Some (homedir c),
                 javaVersion := Some (major_or_0 c),
                 toolingJre := Some (homedir c), toolingJreVersion := major_or_0 c\<rparr>)"
      and least: "\<forall>r \<in> set ?js. requiredJdkVersion env \<le> major_or_0 r
          \<longrightarrow> source_rank c \<le> source_rank r"
      using pick_tooling_choice [OF known some, of "before_scan env"] by blast
    have "source_rank c \<le> source_rank k"
      using least member k_qualifies by blast
    with c have "c = k" by (rule only)
    then have chosen: "toolingJre (snd (resolveRequirements env)) = Some (homedir k)"
      "toolingJreVersion (snd (resolveRequirements env)) = v"
      using tooling_from_scan [OF conjunct1 [OF scan] pick] majors by simp_all
    moreover have "tooling_jre d = Some (homedir k)" if "promise_of env = Resolved d" for d
      using resolved_fields [OF that] chosen by simp
    ultimately show ?thesis by simp
  qed
  have too_old: "\<not> truthy (toolingJre (snd (resolveRequirements env)))
        \<and> (\<forall>d. promise_of env \<noteq> Resolved d)"
    if old: "\<not> truthy (toolingJre (before_scan env)) \<and> v < requiredJdkVersion env"
  proof -
    have "\<forall>r \<in> set ?js. major_or_0 r = v"
      using assms(1) majors by simp
    then have "filter (\<lambda>r. requiredJdkVersion env \<le> major_or_0 r) ?js = []"
      using old by (simp add: filter_empty_conv)
    then show ?thesis
      using no_tooling_when_none_qualifies [OF conjunct1 [OF old] known] by blast
  qed
  have project: "javaHome (snd (resolveRequirements env)) = Some (homedir k)"
    if given: "truthy (toolingJre (before_scan env)) \<and> \<not> truthy (javaHome (before_scan env))"
  proof -
    have nonempty: "?js \<noteq> []" using member by auto
    let ?c = "hd (sort_key source_rank ?js)"
    have "?c \<in> set ?js"
      using nonempty by (rule hd_sort_key(1))
    moreover have "source_rank ?c \<le> source_rank k"
      using hd_sort_key(2) [OF nonempty, of source_rank] member by blast
    ultimately have "?c = k" by (rule only)
    then show ?thesis
      using project_from_scan [OF conjunct1 [OF given] conjunct2 [OF given] nonempty]
      by simp
  qed
  show ?thesis
    using tooling_before_scan [of env] javaHome_before_scan [of env] tooling too_old
      tooling_kept(1) [of env] project
    by (simp add: sorts_stable)
qed

text \<open>
  C5 as stated fails: three candidates of version 11 give no tooling runtime and a
  rejection, and with an embedded runtime the tooling runtime is the embedded one, not
  the candidate from JDK_HOME.
\<close>

theorem jdk_home_candidate_wins_counterexample:
  "findRuntimes old_jdks_env_example
     = [jdk ''/p'' 11 [''PATH''], jdk ''/j'' 11 [''JAVA_HOME''], jdk ''/k'' 11 [''JDK_HOME'']]
   \<and> toolingJre (snd (resolveRequirements old_jdks_env_example)) = None
   \<and> promise_of old_jdks_env_example
       = Rejected \<lparr>message = no_tooling_jdk_message 17,
                   label = Some ''Get the Java Development Kit'',
                   command = Some OPEN_BROWSER,
                   commandParam = Some (getJdkUrl old_jdks_env_example)\<rparr>
   \<and> findRuntimes embedded_env_example
     = [jdk ''/p'' 21 [''PATH''], jdk ''/j'' 21 [''JAVA_HOME''], jdk ''/k'' 21 [''JDK_HOME'']]
   \<and> toolingJre (snd (resolveRequirements embedded_env_example)) = Some ''/ext/jre''"
  by code_simp

theorem jdk_home_candidate_wins_witness:
  "\<not> truthy (toolingJre (before_scan three_jdks_env_example))
   \<and> findRuntimes three_jdks_env_example
       = [jdk ''/p'' 21 [''PATH''], jdk ''/j'' 21 [''JAVA_HOME''], jdk ''/k'' 21 [''JDK_HOME'']]
   \<and> requiredJdkVersion three_jdks_env_example \<le> 21
   \<and> toolingJre (snd (resolveRequirements three_jdks_env_example)) = Some ''/k''
   \<and> toolingJreVersion (snd (resolveRequirements three_jdks_env_example)) = 21
   \<and> promise_of three_jdks_env_example
       = Resolved \<lparr>tooling_jre = Some ''/k'', tooling_jre_version = 21,
                   java_home = Some ''/k'', java_version = Some 21\<rparr>
   \<and> \<not> truthy (toolingJre (before_scan old_jdks_env_example))
   \<and> 11 < requiredJdkVersion old_jdks_env_example
   \<and> \<not> truthy (toolingJre (snd (resolveRequirements old_jdks_env_example)))
   \<and> truthy (toolingJre (before_scan embedded_env_example))
   \<and> \<not> truthy (javaHome (before_scan embedded_env_example))
   \<and> toolingJre (snd (resolveRequirements embedded_env_example)) = Some ''/ext/jre''
   \<and> javaHome (snd (resolveRequirements embedded_env_example)) = Some ''/k''"
proof -
  let ?p = "jdk ''/p'' 21 [''PATH'']"
  let ?j = "jdk ''/j'' 21 [''JAVA_HOME'']"
  let ?k = "jdk ''/k'' 21 [''JDK_HOME'']"
  let ?e = three_jdks_env_example
  let ?f = embedded_env_example
  let ?o = old_jdks_env_example
  have scan: "\<not> truthy (toolingJre (before_scan ?e))"
    by code_simp
  have found: "findRuntimes ?e = [?p, ?j, ?k]"
    by (simp add: three_jdks_env_example_def)
  then have members: "set (findRuntimes ?e) = {?p, ?j, ?k}"
    by simp
  have required: "requiredJdkVersion ?e \<le> 21"
    by code_simp
  have resolved: "promise_of ?e
       = Resolved \<lparr>tooling_jre = Some ''/k'', tooling_jre_version = 21,
                   java_home = Some ''/k'', java_version = Some 21\<rparr>"
    by code_simp
  note at_e = jdk_home_candidate_wins [OF members, of 21]
  have tooling: "toolingJre (snd (resolveRequirements ?e)) = Some ''/k''
    \<and> toolingJreVersion (snd (resolveRequirements ?e)) = 21"
    using at_e [THEN conjunct2, THEN conjunct2, THEN conjunct1] scan required
    by (simp add: jdk_def)
  have old_members: "set (findRuntimes ?o)
      = {jdk ''/p'' 11 [''PATH''], jdk ''/j'' 11 [''JAVA_HOME''], jdk ''/k'' 11 [''JDK_HOME'']}"
    by (simp add: old_jdks_env_example_def)
  have old_scan: "\<not> truthy (toolingJre (before_scan ?o))"
    by code_simp
  have below: "11 < requiredJdkVersion ?o"
    by code_simp
  note at_o = jdk_home_candidate_wins [OF old_members, of 11]
  have none: "\<not> truthy (toolingJre (snd (resolveRequirements ?o)))"
    using at_o [THEN conjunct2, THEN conjunct2, THEN conjunct2, THEN conjunct1] old_scan below
    by (simp add: jdk_def)
  have members': "set (findRuntimes ?f) = {?p, ?j, ?k}"
    by (simp add: embedded_env_example_def three_jdks_env_example_def)
  have given: "truthy (toolingJre (before_scan ?f))"
    by code_simp
  have embedded: "toolingJre (before_scan ?f) = Some ''/ext/jre''"
    by code_simp
  have unset: "\<not> truthy (javaHome (before_scan ?f))"
    by code_simp
  note at_f = jdk_home_candidate_wins [OF members', of 21]
  have kept: "toolingJre (snd (resolveRequirements ?f)) = Some ''/ext/jre''"
    using at_f [THEN conjunct2, THEN conjunct2, THEN conjunct2, THEN conjunct2, THEN conjunct1]
      given embedded
    by (simp add: jdk_def)
  have project: "javaHome (snd (resolveRequirements ?f)) = Some ''/k''"
    using at_f [THEN conjunct2, THEN conjunct2, THEN conjunct2, THEN conjunct2, THEN conjunct2,
        THEN conjunct1] given unset
    by (simp add: jdk_def)
  from scan found required tooling resolved old_scan below none given unset kept project
  show ?thesis by blast
qed

end
